theory Spec2Isabelle
  imports Complex_Main "HOL-Library.Sublist" "HOL-Library.Char_ord"
    "HOL-Library.List_Lexorder" "HOL-Library.Option_ord"
begin

section \<open>License and Rule models of licensedcode/models.py\<close>

text \<open>
  A shallow embedding of \<^verbatim>\<open>src/licensedcode/models.py\<close>. Objects are records,
  a method takes \<open>self\<close> and returns the updated \<open>self\<close> next to its value, an
  exception is the \<open>Inl\<close> of a sum. Token counts are \<open>nat\<close> (they count tokens,
  starting at 0); \<open>relevance\<close> and \<open>minimum_coverage\<close> of a rule are \<open>rat\<close>, since
  \<^verbatim>\<open>Rule.load\<close> stores them as floats (the finite ones; NaN and the infinities
  are left out).
\<close>

subsection \<open>Exceptions\<close>

datatype error =
    Exception string
  | MissingLicenses string
  | MissingFlags string
  | TypeError
  | ValueError
  | AttributeError
  | IOError
  | NotImplementedError

subsection \<open>Strings\<close>

text \<open>
  A Python string is a \<open>string\<close>: a list of characters, each a code point below 256.
  \<^verbatim>\<open>None\<close> where a string may stand is \<open>None\<close> of \<open>string option\<close>, and the
  truth value of such an attribute (\<^verbatim>\<open>if self.text_file:\<close>) is \<open>truthy\<close>: neither
  \<^verbatim>\<open>None\<close> nor empty.
\<close>

definition truthy :: "string option \<Rightarrow> bool" where
  "truthy s = (case s of None \<Rightarrow> False | Some t \<Rightarrow> t \<noteq> [])"

text \<open>\<^verbatim>\<open>sep.join(xs)\<close>.\<close>

fun str_join :: "string \<Rightarrow> string list \<Rightarrow> string" where
  "str_join sep [] = []"
| "str_join sep [x] = x"
| "str_join sep (x # y # ys) = x @ sep @ str_join sep (y # ys)"

text \<open>
  \<^verbatim>\<open>s.replace(old, new)\<close> for a non-empty \<open>old\<close>: the occurrences of \<open>old\<close> are
  replaced from the left, without overlap.
\<close>

function str_replace :: "string \<Rightarrow> string \<Rightarrow> string \<Rightarrow> string" where
  "str_replace old new [] = []"
| "str_replace old new (c # cs) =
     (if old \<noteq> [] \<and> prefix old (c # cs)
      then new @ str_replace old new (drop (length old) (c # cs))
      else c # str_replace old new cs)"
  by pat_completeness auto
termination
  by (relation "measure (\<lambda>(old, new, s). length s)") (auto simp: prefix_def)

text \<open>
  \<^verbatim>\<open>s.strip()\<close> of a unicode string: the characters with \<^verbatim>\<open>isspace()\<close> are removed at
  both ends. Below 256 these are the code points 9 to 13, 28 to 32, 133 and 160.
\<close>

definition isspace :: "char \<Rightarrow> bool" where
  "isspace c =
     (let n = of_char c :: nat
      in (9 \<le> n \<and> n \<le> 13) \<or> (28 \<le> n \<and> n \<le> 32) \<or> n = 133 \<or> n = 160)"

definition strip :: "string \<Rightarrow> string" where
  "strip s = rev (dropWhile isspace (rev (dropWhile isspace s)))"

text \<open>\<^verbatim>\<open>str(n)\<close> of a natural number: its decimal digits.\<close>

fun str_nat :: "nat \<Rightarrow> string" where
  "str_nat n =
     (if n < 10 then [char_of (48 + n)]
      else str_nat (n div 10) @ [char_of (48 + n mod 10)])"

declare str_nat.simps [simp del]

text \<open>
  \<^verbatim>\<open>os.path.join(a, b)\<close> of \<^verbatim>\<open>posixpath\<close>, for two components. \<^verbatim>\<open>b.startswith\<close>
  and \<^verbatim>\<open>a.endswith\<close> raise AttributeError on \<^verbatim>\<open>None\<close>.
\<close>

definition join :: "string option \<Rightarrow> string option \<Rightarrow> error + string" where
  "join a b =
     (case b of
        None \<Rightarrow> Inl AttributeError
      | Some b' \<Rightarrow>
          if prefix ''/'' b' then Inr b'
          else (case a of
                  None \<Rightarrow> Inl AttributeError
                | Some a' \<Rightarrow>
                    if a' = [] \<or> suffix ''/'' a' then Inr (a' @ b')
                    else Inr (a' @ ''/'' @ b')))"

subsection \<open>Dictionaries\<close>

text \<open>
  A dictionary whose items are iterated is an association list with distinct keys; the
  order of the list is the order of iteration (Python leaves it unspecified, and no
  property below depends on it). A \<^verbatim>\<open>defaultdict(list)\<close> is such a list of buckets:
  \<open>dd_touch\<close> is the lookup \<^verbatim>\<open>d[k]\<close>, which creates an empty bucket, and \<open>dd_append\<close>
  is \<^verbatim>\<open>d[k].append(v)\<close>. A \<^verbatim>\<open>set\<close> is a list without duplicates, and
  \<open>set_update\<close> is \<^verbatim>\<open>s.update(vs)\<close>.
\<close>

fun dd_touch :: "'k \<Rightarrow> ('k \<times> 'v list) list \<Rightarrow> ('k \<times> 'v list) list" where
  "dd_touch k [] = [(k, [])]"
| "dd_touch k ((k', vs) # d) =
     (if k = k' then (k', vs) # d else (k', vs) # dd_touch k d)"

fun dd_append :: "'k \<Rightarrow> 'v \<Rightarrow> ('k \<times> 'v list) list \<Rightarrow> ('k \<times> 'v list) list" where
  "dd_append k v [] = [(k, [v])]"
| "dd_append k v ((k', vs) # d) =
     (if k = k' then (k', vs @ [v]) # d else (k', vs) # dd_append k v d)"

definition set_add :: "'a \<Rightarrow> 'a list \<Rightarrow> 'a list" where
  "set_add v s = (if v \<in> set s then s else s @ [v])"

definition set_update :: "'a list \<Rightarrow> 'a list \<Rightarrow> 'a list" where
  "set_update vs s = fold set_add vs s"

text \<open>A loop whose body may raise: the first exception ends it.\<close>

fun for_each :: "('s \<Rightarrow> 'a \<Rightarrow> error + 's) \<Rightarrow> 'a list \<Rightarrow> 's \<Rightarrow> error + 's" where
  "for_each body [] s = Inr s"
| "for_each body (x # xs) s =
     (case body s x of Inl e \<Rightarrow> Inl e | Inr s' \<Rightarrow> for_each body xs s')"

subsection \<open>What the module imports\<close>

text \<open>
  The functions this module calls and does not define, as one record of parameters:
  \<^item> \<open>exists\<close>: \<^verbatim>\<open>os.path.exists\<close> on a path;
  \<^item> \<open>io_read\<close>: \<^verbatim>\<open>io.open(location, encoding='utf-8').read()\<close>, which may raise;
  \<^item> \<open>saneyaml_load\<close>: \<^verbatim>\<open>saneyaml.load\<close> on the text of a data file: the mapping of
    the file, or an exception;
  \<^item> \<open>float_of_str\<close>: \<^verbatim>\<open>float(s)\<close> on a string, \<open>None\<close> where it raises ValueError;
  \<^item> \<open>numbered_text_lines\<close>: the numbered lines of a text file
    (\<^verbatim>\<open>textcode.analysis\<close>, called with \<^verbatim>\<open>demarkup=False, plain_text=True\<close>);
  \<^item> \<open>query_tokenizer\<close>: the tokens of a text, given \<^verbatim>\<open>lower\<close>
    (\<^verbatim>\<open>licensedcode.tokenize\<close>);
  \<^item> \<open>file_name\<close>: \<^verbatim>\<open>commoncode.fileutils.file_name\<close>;
  \<^item> \<open>licensing_parse\<close>: \<^verbatim>\<open>Licensing().parse\<close>: an exception, \<^verbatim>\<open>None\<close> or an
    expression of type \<open>'e\<close>; \<open>expression_render\<close>: \<^verbatim>\<open>expression.render()\<close>;
    \<open>licensing_license_keys\<close>: \<^verbatim>\<open>Licensing().license_keys(expression, unique)\<close>.
\<close>

datatype yaml = YNone | YBool bool | YNum rat | YStr string | YList "string list"

record 'e env =
  exists :: "string \<Rightarrow> bool"
  io_read :: "string \<Rightarrow> error + string"
  saneyaml_load :: "string \<Rightarrow> error + (string \<times> yaml) list"
  float_of_str :: "string \<Rightarrow> rat option"
  numbered_text_lines :: "string \<Rightarrow> (nat \<times> string) list"
  query_tokenizer :: "string \<Rightarrow> bool \<Rightarrow> string list"
  file_name :: "string \<Rightarrow> string"
  licensing_parse :: "string \<Rightarrow> error + 'e option"
  expression_render :: "'e \<Rightarrow> string"
  licensing_license_keys :: "'e option \<Rightarrow> bool \<Rightarrow> string list"

subsection \<open>The License class\<close>

definition FOSS_CATEGORIES :: "string list" where
  "FOSS_CATEGORIES =
     [''Copyleft'', ''Copyleft Limited'', ''Patent License'', ''Permissive'',
      ''Public Domain'']"

definition OTHER_CATEGORIES :: "string list" where
  "OTHER_CATEGORIES =
     [''Commercial'', ''Free Restricted'', ''Proprietary Free'', ''Unstated License'']"

definition CATEGORIES :: "string list" where
  "CATEGORIES = FOSS_CATEGORIES @ OTHER_CATEGORIES"

text \<open>
  The attributes of \<^verbatim>\<open>License\<close>, in the order of the class body (\<open>notes_L\<close> is
  \<^verbatim>\<open>notes\<close>). The key of a license is a string; an empty entry of a list of URLs is
  the empty string.
\<close>

record License =
  key :: string
  src_dir :: "string option"
  is_deprecated :: bool
  language :: string
  short_name :: "string option"
  name :: "string option"
  category :: "string option"
  owner :: "string option"
  homepage_url :: "string option"
  notes_L :: "string option"
  is_exception :: bool
  spdx_license_key :: "string option"
  other_spdx_license_keys :: "string list"
  text_urls :: "string list"
  osi_url :: "string option"
  faq_url :: "string option"
  other_urls :: "string list"
  key_aliases :: "string list"
  minimum_coverage :: int
  relevance :: int
  standard_notice :: "string option"
  data_file :: "string option"
  text_file :: "string option"

text \<open>
  \<open>License_defaults k dir\<close> holds the defaults of the attributes, with the key and the
  source directory given to the constructor. \<^verbatim>\<open>License(key, src_dir)\<close> for a key
  whose data file does not exist is \<open>License_init\<close>: these defaults, then
  \<^verbatim>\<open>set_file_paths\<close> when \<^verbatim>\<open>src_dir\<close> is set. (Loading the attributes from an
  existing data file is not modelled.)
\<close>

definition License_defaults :: "string \<Rightarrow> string option \<Rightarrow> License" where
  "License_defaults k dir =
     \<lparr>key = k, src_dir = dir, is_deprecated = False, language = ''en'',
      short_name = None, name = None, category = None, owner = None,
      homepage_url = None, notes_L = None, is_exception = False,
      spdx_license_key = None, other_spdx_license_keys = [], text_urls = [],
      osi_url = None, faq_url = None, other_urls = [], key_aliases = [],
      minimum_coverage = 0, relevance = 100, standard_notice = None,
      data_file = None, text_file = None\<rparr>"

definition set_file_paths :: "License \<Rightarrow> error + License" where
  "set_file_paths self =
     (case join (src_dir self) (Some (key self @ ''.yml'')) of
        Inl e \<Rightarrow> Inl e
      | Inr df \<Rightarrow>
          (case join (src_dir self) (Some (key self @ ''.LICENSE'')) of
             Inl e \<Rightarrow> Inl e
           | Inr tf \<Rightarrow> Inr (self\<lparr>data_file := Some df, text_file := Some tf\<rparr>)))"

definition License_init :: "string \<Rightarrow> string option \<Rightarrow> error + License" where
  "License_init k dir =
     (let self = License_defaults k dir
      in if truthy dir then set_file_paths self else Inr self)"

text \<open>
  \<^verbatim>\<open>License._read_text\<close> and the property \<^verbatim>\<open>License.text\<close>.
  \<^verbatim>\<open>os.path.exists(None)\<close> raises TypeError.
\<close>

definition read_text :: "'e env \<Rightarrow> string option \<Rightarrow> error + string" where
  "read_text E location =
     (case location of
        None \<Rightarrow> Inl TypeError
      | Some p \<Rightarrow> if \<not> exists E p then Inr [] else io_read E p)"

definition License_text :: "'e env \<Rightarrow> License \<Rightarrow> error + string" where
  "License_text E self = read_text E (text_file self)"

subsection \<open>License.validate\<close>

text \<open>
  The dictionaries of \<^verbatim>\<open>validate\<close>: the three results \<open>infos\<close>, \<open>warnings\<close>,
  \<open>errors\<close> and the four used for the global checks.
\<close>

record validation =
  infos :: "(string \<times> string list) list"
  warnings :: "(string \<times> string list) list"
  errors :: "(string \<times> string list) list"
  by_spdx_key :: "(string \<times> string list) list"
  by_text :: "(string list \<times> string list) list"
  by_short_name :: "(string option \<times> License list) list"
  by_name :: "(string option \<times> License list) list"

definition warn :: "string \<Rightarrow> string \<Rightarrow> validation \<Rightarrow> validation" where
  "warn k msg v = v\<lparr>warnings := dd_append k msg (warnings v)\<rparr>"

definition info :: "string \<Rightarrow> string \<Rightarrow> validation \<Rightarrow> validation" where
  "info k msg v = v\<lparr>infos := dd_append k msg (infos v)\<rparr>"

definition error :: "string \<Rightarrow> string \<Rightarrow> validation \<Rightarrow> validation" where
  "error k msg v = v\<lparr>errors := dd_append k msg (errors v)\<rparr>"

text \<open>The block under \<^verbatim>\<open>if no_dupe_urls:\<close>, for one license.\<close>

definition validate_urls :: "string \<Rightarrow> License \<Rightarrow> validation \<Rightarrow> validation" where
  "validate_urls k lic v =
     (let v = (if text_urls lic \<noteq> [] \<and> \<not> (\<forall>u \<in> set (text_urls lic). u \<noteq> [])
               then warn k ''Some empty text_urls values'' v else v);
          v = (if other_urls lic \<noteq> [] \<and> \<not> (\<forall>u \<in> set (other_urls lic). u \<noteq> [])
               then warn k ''Some empty other_urls values'' v else v);
          v = (if truthy (homepage_url lic) then
                 let v = (if the (homepage_url lic) \<in> set (text_urls lic)
                          then warn k ''Homepage URL also in text_urls'' v else v);
                     v = (if the (homepage_url lic) \<in> set (other_urls lic)
                          then warn k ''Homepage URL also in other_urls'' v else v);
                     v = (if homepage_url lic = faq_url lic
                          then warn k ''Homepage URL same as faq_url'' v else v);
                     v = (if homepage_url lic = osi_url lic
                          then warn k ''Homepage URL same as osi_url'' v else v)
                 in v
               else v);
          v = (if (truthy (osi_url lic) \<or> truthy (faq_url lic)) \<and> osi_url lic = faq_url lic
               then warn k ''osi_url same as faq_url'' v else v);
          all_licenses =
            text_urls lic @ other_urls lic @
            map the (filter truthy [osi_url lic, faq_url lic, homepage_url lic])
      in if \<not> (length all_licenses = length (remdups all_licenses))
         then warn k ''Some duplicated URLs'' v else v)"

text \<open>The body of the loop \<^verbatim>\<open>for key, lic in licenses.items()\<close>.\<close>

definition validate_license ::
  "'e env \<Rightarrow> bool \<Rightarrow> validation \<Rightarrow> string \<times> License \<Rightarrow> error + validation" where
  "validate_license E no_dupe_urls v item =
     (let (k, lic) = item;
          v = v\<lparr>warnings := dd_touch k (warnings v)\<rparr>;
          v = v\<lparr>infos := dd_touch k (infos v)\<rparr>;
          v = v\<lparr>errors := dd_touch k (errors v)\<rparr>;
          v = v\<lparr>by_name := dd_append (name lic) lic (by_name v)\<rparr>;
          v = v\<lparr>by_short_name := dd_append (short_name lic) lic (by_short_name v)\<rparr>;
          v = (if \<not> truthy (short_name lic) then error k ''No short name'' v else v);
          v = (if \<not> truthy (name lic) then error k ''No name'' v else v);
          v = (if \<not> truthy (category lic) then error k ''No category'' v else v);
          v = (if truthy (category lic) \<and> the (category lic) \<notin> set CATEGORIES
               then error k (''Unknown license category: '' @ the (category lic)) v
               else v);
          v = (if \<not> truthy (owner lic) then error k ''No owner'' v else v);
          v = (if no_dupe_urls then validate_urls k lic v else v)
      in case License_text E lic of
           Inl e \<Rightarrow> Inl e
         | Inr text \<Rightarrow>
             let license_qtokens = query_tokenizer E text True;
                 v = (if license_qtokens = [] then info k ''No license text'' v
                      else v\<lparr>by_text :=
                             dd_append license_qtokens (k @ '': TEXT'') (by_text v)\<rparr>);
                 v = (if truthy (spdx_license_key lic)
                      then v\<lparr>by_spdx_key :=
                             dd_append (the (spdx_license_key lic)) k (by_spdx_key v)\<rparr>
                      else v);
                 v = fold (\<lambda>oslk v. v\<lparr>by_spdx_key := dd_append oslk k (by_spdx_key v)\<rparr>)
                       (other_spdx_license_keys lic) v
             in Inr v)"

text \<open>
  The value of \<^verbatim>\<open>license_qtokens\<close> in that loop, for one license:
  \<^verbatim>\<open>tuple(query_tokenizer(lic.text, lower=True))\<close>.
\<close>

definition license_qtokens :: "'e env \<Rightarrow> License \<Rightarrow> error + string list" where
  "license_qtokens E lic =
     (case License_text E lic of
        Inl e \<Rightarrow> Inl e
      | Inr text \<Rightarrow> Inr (query_tokenizer E text True))"

text \<open>
  The global checks after the loop. The two loops over \<^verbatim>\<open>by_short_name\<close> and
  \<^verbatim>\<open>by_name\<close> concatenate the bucket's key to a string: TypeError when the key is
  \<^verbatim>\<open>None\<close> and the bucket does not hold exactly one license.
\<close>

definition spdx_dedupe :: "validation \<Rightarrow> validation" where
  "spdx_dedupe v =
     (let multiple_spdx_keys_used = filter (\<lambda>(k, ks). 1 < length ks) (by_spdx_key v)
      in fold (\<lambda>(k, lkeys).
                 error ''GLOBAL''
                   (''SPDX key: '' @ k @ '' used in multiple licenses: ''
                      @ str_join '', '' (sort lkeys)))
           multiple_spdx_keys_used v)"

definition text_dedupe :: "validation \<Rightarrow> validation" where
  "text_dedupe v =
     (let multiple_texts = filter (\<lambda>(k, msgs). 1 < length msgs) (by_text v)
      in fold (\<lambda>(k, msgs).
                 error ''GLOBAL''
                   (''Duplicate texts in multiple licenses:'' @ str_join '', '' (sort msgs)))
           multiple_texts v)"

definition name_dedupe ::
  "string \<Rightarrow> validation \<Rightarrow> string option \<times> License list \<Rightarrow> error + validation" where
  "name_dedupe what v bucket =
     (let (n, licenses) = bucket
      in if length licenses = 1 then Inr v
         else (case n of
                 None \<Rightarrow> Inl TypeError
               | Some n' \<Rightarrow>
                   Inr (error ''GLOBAL''
                          (what @ n' @ '' in licenses:'' @ str_join '', '' (map key licenses))
                          v)))"

definition nonempty_items :: "('k \<times> 'v list) list \<Rightarrow> ('k \<times> 'v list) list" where
  "nonempty_items d = filter (\<lambda>(k, v). v \<noteq> []) d"

text \<open>
  \<^verbatim>\<open>License.validate(licenses, verbose, no_dupe_urls)\<close>, on the items of
  \<^verbatim>\<open>licenses\<close>. With \<^verbatim>\<open>verbose\<close> the messages are printed as well; the printing
  changes no result and is not modelled. The value is the triple
  \<^verbatim>\<open>errors, warnings, infos\<close>, or the exception raised on the way.
\<close>

definition validate ::
  "'e env \<Rightarrow> (string \<times> License) list \<Rightarrow> bool \<Rightarrow> bool \<Rightarrow>
   error + ((string \<times> string list) list \<times> (string \<times> string list) list \<times>
            (string \<times> string list) list)" where
  "validate E licenses verbose no_dupe_urls =
     (let v0 = \<lparr>infos = [], warnings = [], errors = [], by_spdx_key = [], by_text = [],
                by_short_name = [], by_name = []\<rparr>
      in case for_each (validate_license E no_dupe_urls) licenses v0 of
           Inl e \<Rightarrow> Inl e
         | Inr v \<Rightarrow>
             (let v = spdx_dedupe v;
                  v = text_dedupe v
              in case for_each (name_dedupe ''Duplicate short name:'') (by_short_name v) v of
                   Inl e \<Rightarrow> Inl e
                 | Inr v \<Rightarrow>
                     (case for_each (name_dedupe ''Duplicate name:'') (by_name v) v of
                        Inl e \<Rightarrow> Inl e
                      | Inr v \<Rightarrow>
                          Inr (nonempty_items (errors v), nonempty_items (warnings v),
                               nonempty_items (infos v)))))"

subsection \<open>Thresholds\<close>

text \<open>The namedtuple \<^verbatim>\<open>Thresholds\<close>; its field \<^verbatim>\<open>length\<close> is \<open>length_T\<close> here.\<close>

record Thresholds =
  high_len :: nat
  low_len :: nat
  length_T :: nat
  small_T :: bool
  min_high :: nat
  min_len :: nat

subsection \<open>The Rule class\<close>

datatype rule_class = Rule_class | SpdxRule_class

text \<open>
  The attributes of \<^verbatim>\<open>Rule\<close>, in the order of the class body. \<open>py_class\<close> is the
  class of the object (\<^verbatim>\<open>SpdxRule\<close> overrides \<^verbatim>\<open>small\<close>), \<open>identifier_R\<close>,
  \<open>notes_R\<close> and \<open>length_R\<close> are \<^verbatim>\<open>identifier\<close>, \<^verbatim>\<open>notes\<close> and
  \<^verbatim>\<open>length\<close>, and \<open>thresholds_attr\<close>, \<open>thresholds_unique_attr\<close> are the caches
  \<^verbatim>\<open>_thresholds\<close> and \<^verbatim>\<open>_thresholds_unique\<close>. The type \<open>'e\<close> is the type of the
  parsed license expressions of the external expression engine.
\<close>

record 'e Rule =
  py_class :: rule_class
  rid :: "nat option"
  identifier_R :: "string option"
  license_expression :: "string option"
  license_expression_object :: "'e option"
  is_license_text :: bool
  is_license_notice :: bool
  is_license_reference :: bool
  is_license_tag :: bool
  is_false_positive :: bool
  is_negative :: bool
  minimum_coverage :: rat
  only_known_words :: bool
  relevance :: rat
  has_stored_relevance :: bool
  referenced_filenames :: "string list"
  notes_R :: "string option"
  is_license :: bool
  data_file :: "string option"
  text_file :: "string option"
  stored_text :: "string option"
  length_R :: nat
  high_length :: nat
  low_length :: nat
  thresholds_attr :: "Thresholds option"
  high_unique :: nat
  low_unique :: nat
  length_unique :: nat
  thresholds_unique_attr :: "Thresholds option"

text \<open>The defaults of the attributes (\<^verbatim>\<open>attr.ib(default=...)\<close>), for a plain \<^verbatim>\<open>Rule\<close>.\<close>

definition Rule_defaults :: "'e Rule" where
  "Rule_defaults =
     \<lparr>py_class = Rule_class, rid = None, identifier_R = None,
      license_expression = None, license_expression_object = None,
      is_license_text = False, is_license_notice = False,
      is_license_reference = False, is_license_tag = False,
      is_false_positive = False, is_negative = False, minimum_coverage = 0,
      only_known_words = False, relevance = 100, has_stored_relevance = False,
      referenced_filenames = [], notes_R = None, is_license = False,
      data_file = None, text_file = None, stored_text = None, length_R = 0,
      high_length = 0, low_length = 0, thresholds_attr = None, high_unique = 0,
      low_unique = 0, length_unique = 0, thresholds_unique_attr = None\<rparr>"

subsection \<open>Rule.compute\_relevance\<close>

text \<open>
  \<^verbatim>\<open>round(x, 2)\<close> of Python 2 (half away from zero) and \<^verbatim>\<open>int(x)\<close> (towards
  zero), on exact rationals. \<^verbatim>\<open>compute_relevance\<close> rounds 100/18 = 5.55... to 5.56
  and truncates \<open>length * 5.56\<close> for a length below 18; these products are at least
  0.04 away from the next integer, so the rounding error of the double product does
  not change the truncated value.
\<close>

definition py_round2 :: "rat \<Rightarrow> rat" where
  "py_round2 x =
     (if 0 \<le> x then of_int \<lfloor>x * 100 + 1 / 2\<rfloor> / 100
      else - (of_int \<lfloor>- x * 100 + 1 / 2\<rfloor> / 100))"

definition py_int :: "rat \<Rightarrow> int" where
  "py_int x = (if 0 \<le> x then \<lfloor>x\<rfloor> else \<lceil>x\<rceil>)"

definition compute_relevance :: "'e Rule \<Rightarrow> 'e Rule" where
  "compute_relevance self =
     (if has_stored_relevance self then self
      else if is_false_positive self then self\<lparr>relevance := 100\<rparr>
      else if is_negative self then self\<lparr>relevance := 100\<rparr>
      else
        let threshold = (18 :: rat);
            relevance_of_one_word = py_round2 ((1 / threshold) * 100);
            length = (of_nat (length_R self) :: rat)
        in if threshold \<le> length then self\<lparr>relevance := 100\<rparr>
           else
             let computed = py_int (length * relevance_of_one_word)
             in self\<lparr>relevance := of_int (min 100 computed)\<rparr>)"

subsection \<open>Rule.small and SpdxRule.small\<close>

definition Rule_small :: "'e Rule \<Rightarrow> bool" where
  "Rule_small self =
     (let SMALL_RULE = (15 :: nat)
      in length_R self < SMALL_RULE \<or> minimum_coverage self = 100)"

definition SpdxRule_small :: "'e Rule \<Rightarrow> bool" where
  "SpdxRule_small self = False"

text \<open>The call \<^verbatim>\<open>self.small()\<close>: the method of the object's class.\<close>

definition small :: "'e Rule \<Rightarrow> bool" where
  "small self =
     (case py_class self of
        Rule_class \<Rightarrow> Rule_small self
      | SpdxRule_class \<Rightarrow> SpdxRule_small self)"

subsection \<open>Rule.thresholds and Rule.thresholds\_unique\<close>

text \<open>
  \<^verbatim>\<open>MIN_MATCH_LENGTH\<close> and \<^verbatim>\<open>MIN_MATCH_HIGH_LENGTH\<close> are constants of the package
  \<^verbatim>\<open>licensedcode\<close>; they are parameters here. Each statement of the cascade is one
  step on the triple \<open>(self, min_high, min_len)\<close>. A \<^verbatim>\<open>Thresholds\<close> tuple has six
  fields and is never falsy, so \<^verbatim>\<open>not self._thresholds\<close> holds exactly when the
  cache is \<^verbatim>\<open>None\<close>.
\<close>

definition thresholds :: "nat \<Rightarrow> nat \<Rightarrow> 'e Rule \<Rightarrow> Thresholds \<times> 'e Rule" where
  "thresholds MIN_MATCH_LENGTH MIN_MATCH_HIGH_LENGTH self =
     (case thresholds_attr self of
        Some t \<Rightarrow> (t, self)
      | None \<Rightarrow>
          let length = length_R self;
              high_length = high_length self;
              (min_high, min_len) =
                (if 200 < length then (high_length div 10, length div 10)
                 else (min high_length MIN_MATCH_HIGH_LENGTH, MIN_MATCH_LENGTH));
              min_len = (if length_R self < 30 then length div 2 else min_len);
              (self, min_high, min_len) =
                (if length_R self < 10
                 then (self\<lparr>minimum_coverage := 80\<rparr>, high_length, length)
                 else (self, min_high, min_len));
              (self, min_high, min_len) =
                (if length_R self < 3
                 then (self\<lparr>minimum_coverage := 100\<rparr>, high_length, length)
                 else (self, min_high, min_len));
              (min_high, min_len) =
                (if minimum_coverage self = 100 then (high_length, length)
                 else (min_high, min_len));
              t = \<lparr>high_len = high_length, low_len = low_length self, length_T = length,
                    small_T = small self, min_high = min_high, min_len = min_len\<rparr>
          in (t, self\<lparr>thresholds_attr := Some t\<rparr>))"

definition thresholds_unique :: "nat \<Rightarrow> nat \<Rightarrow> 'e Rule \<Rightarrow> Thresholds \<times> 'e Rule" where
  "thresholds_unique MIN_MATCH_LENGTH MIN_MATCH_HIGH_LENGTH self =
     (case thresholds_unique_attr self of
        Some t \<Rightarrow> (t, self)
      | None \<Rightarrow>
          let length = length_R self;
              high_unique = high_unique self;
              length_unique = length_unique self;
              (min_high, min_len) =
                (if 200 < length then (high_unique div 10, length div 10)
                 else
                   let highu = (if high_unique div 2 \<noteq> 0 then high_unique div 2
                                else high_unique)
                   in (min highu MIN_MATCH_HIGH_LENGTH, MIN_MATCH_LENGTH));
              (min_high, min_len) =
                (if length < 20 then (high_unique, high_unique) else (min_high, min_len));
              (min_high, min_len) =
                (if length < 10
                 then (high_unique,
                       if length_unique < 2 then length_unique else length_unique - 1)
                 else (min_high, min_len));
              (min_high, min_len) =
                (if length < 5 then (high_unique, length_unique) else (min_high, min_len));
              (min_high, min_len) =
                (if minimum_coverage self = 100 then (high_unique, length_unique)
                 else (min_high, min_len));
              t = \<lparr>high_len = high_unique, low_len = low_unique self,
                    length_T = length_unique, small_T = small self,
                    min_high = min_high, min_len = min_len\<rparr>
          in (t, self\<lparr>thresholds_unique_attr := Some t\<rparr>))"

subsection \<open>Rule.text and Rule.tokens\<close>

text \<open>
  \<^verbatim>\<open>Rule.text()\<close>: the lines of the text file when it exists, else the stored text,
  else an exception (TypeError when the message cannot be built from \<^verbatim>\<open>None\<close>).
\<close>

definition Rule_text :: "'e env \<Rightarrow> 'e Rule \<Rightarrow> error + string" where
  "Rule_text E self =
     (if truthy (text_file self) \<and> exists E (the (text_file self))
      then Inr (concat (map snd (numbered_text_lines E (the (text_file self)))))
      else if truthy (stored_text self) then Inr (the (stored_text self))
      else (case (identifier_R self, text_file self) of
              (Some i, Some tf) \<Rightarrow>
                Inl (Exception (''Inconsistent rule text for: '' @ i @ ''\<newline>file://'' @ tf))
            | _ \<Rightarrow> Inl TypeError))"

text \<open>
  \<^verbatim>\<open>Rule.tokens(lower)\<close>, iterated to its end: the tokens it yields and the rule
  after it. The generator reads the text twice, sets \<^verbatim>\<open>minimum_coverage\<close> before
  the first token, and sets the length and the relevance after the last one.
\<close>

definition tokens :: "'e env \<Rightarrow> bool \<Rightarrow> 'e Rule \<Rightarrow> error + (string list \<times> 'e Rule)" where
  "tokens E lower self =
     (case Rule_text E self of
        Inl e \<Rightarrow> Inl e
      | Inr text \<Rightarrow>
          let text = strip text;
              self =
                (if (prefix ''http://'' text \<or> prefix ''https://'' text \<or> prefix ''ftp://'' text)
                    \<and> CHR 0x0A \<notin> set (take 1000 text)
                 then self\<lparr>minimum_coverage := 100\<rparr> else self)
          in case Rule_text E self of
               Inl e \<Rightarrow> Inl e
             | Inr text' \<Rightarrow>
                 let yielded = query_tokenizer E text' lower;
                     length = length yielded;
                     self = self\<lparr>length_R := length\<rparr>
                 in Inr (yielded, compute_relevance self))"

subsection \<open>Rule.load\<close>

text \<open>
  The mapping read from a data file is a list of items; its values are \<open>yaml\<close> values.
  \<open>data_get\<close> is \<^verbatim>\<open>data.get(k, default)\<close>, \<open>yaml_truthy\<close> the truth value of a
  value, \<open>py_float\<close> is \<^verbatim>\<open>float(v)\<close>. A flag of the rule is the truth value of its
  value in the file. \<^verbatim>\<open>license_expression\<close> is a string in a rule file; any other
  value there is read as \<^verbatim>\<open>None\<close>.
\<close>

definition data_get :: "(string \<times> yaml) list \<Rightarrow> string \<Rightarrow> yaml \<Rightarrow> yaml" where
  "data_get data k dflt = (case map_of data k of None \<Rightarrow> dflt | Some v \<Rightarrow> v)"

fun yaml_truthy :: "yaml \<Rightarrow> bool" where
  "yaml_truthy YNone = False"
| "yaml_truthy (YBool b) = b"
| "yaml_truthy (YNum r) = (r \<noteq> 0)"
| "yaml_truthy (YStr s) = (s \<noteq> [])"
| "yaml_truthy (YList xs) = (xs \<noteq> [])"

fun py_float :: "'e env \<Rightarrow> yaml \<Rightarrow> error + rat" where
  "py_float E YNone = Inl TypeError"
| "py_float E (YBool b) = Inr (if b then 1 else 0)"
| "py_float E (YNum r) = Inr r"
| "py_float E (YStr s) =
     (case float_of_str E s of None \<Rightarrow> Inl ValueError | Some r \<Rightarrow> Inr r)"
| "py_float E (YList xs) = Inl TypeError"

fun text_of :: "yaml \<Rightarrow> string option" where
  "text_of (YStr s) = Some s"
| "text_of _ = None"

text \<open>The names of the attributes of the class: \<^verbatim>\<open>attr.fields_dict(self.__class__)\<close>.\<close>

definition known_attributes :: "string list" where
  "known_attributes =
     [''rid'', ''identifier'', ''license_expression'', ''license_expression_object'',
      ''is_license_text'', ''is_license_notice'', ''is_license_reference'',
      ''is_license_tag'', ''is_false_positive'', ''is_negative'', ''minimum_coverage'',
      ''only_known_words'', ''relevance'', ''has_stored_relevance'',
      ''referenced_filenames'', ''notes'', ''is_license'', ''data_file'', ''text_file'',
      ''stored_text'', ''length'', ''high_length'', ''low_length'', ''_thresholds'',
      ''high_unique'', ''low_unique'', ''length_unique'', ''_thresholds_unique'']"

text \<open>Sequencing of steps that may raise.\<close>

definition and_then :: "error + 'a \<Rightarrow> ('a \<Rightarrow> error + 'b) \<Rightarrow> error + 'b" where
  "and_then r f = (case r of Inl e \<Rightarrow> Inl e | Inr a \<Rightarrow> f a)"

text \<open>
  The steps of \<^verbatim>\<open>Rule.load\<close>, in the order of the source. The messages are the format
  strings of the source, before \<^verbatim>\<open>format\<close> fills in the rule. The attribute
  \<^verbatim>\<open>license_expression\<close> holds a string or \<^verbatim>\<open>None\<close>: a data file whose
  \<^verbatim>\<open>license_expression\<close> is not a string (the source keeps such a value, and the
  constructor fails when it parses it) is not covered, \<open>text_of\<close> reads it as
  \<^verbatim>\<open>None\<close>.
\<close>

definition load_expression :: "(string \<times> yaml) list \<Rightarrow> 'e Rule \<Rightarrow> error + 'e Rule" where
  "load_expression data self =
     (let self = self\<lparr>license_expression := text_of (data_get data ''license_expression'' YNone)\<rparr>;
          self = self\<lparr>is_negative := yaml_truthy (data_get data ''is_negative'' (YBool False))\<rparr>;
          self = self\<lparr>is_false_positive :=
                        yaml_truthy (data_get data ''is_false_positive'' (YBool False))\<rparr>
      in if \<not> truthy (license_expression self)
            \<and> \<not> (is_negative self \<or> is_false_positive self)
         then Inl (Exception ''License rule {} is missing a license_expression.'')
         else Inr self)"

definition load_relevance ::
  "'e env \<Rightarrow> (string \<times> yaml) list \<Rightarrow> 'e Rule \<Rightarrow> error + 'e Rule" where
  "load_relevance E data self =
     (let relevance' = data_get data ''relevance'' YNone
      in if relevance' \<noteq> YNone then
           and_then (py_float E relevance') (\<lambda>f.
             let self = self\<lparr>has_stored_relevance := True\<rparr>;
                 self = self\<lparr>relevance := f\<rparr>
             in if \<not> (0 < relevance self \<and> relevance self \<le> 100)
                then Inl (Exception
                       (''License rule {} data file has an invalid relevance. ''
                          @ ''Should be between 0 and 100: {}''))
                else Inr self)
         else Inr self)"

definition load_minimum_coverage ::
  "'e env \<Rightarrow> (string \<times> yaml) list \<Rightarrow> 'e Rule \<Rightarrow> error + 'e Rule" where
  "load_minimum_coverage E data self =
     and_then (py_float E (data_get data ''minimum_coverage'' (YNum 0))) (\<lambda>f.
       let self = self\<lparr>minimum_coverage := f\<rparr>
       in if \<not> (0 \<le> relevance self \<and> relevance self \<le> 100)
          then Inl (Exception
                 (''License rule {} data file has an invalid minimum_coverage. ''
                    @ ''Should be between 0 and 100: {}''))
          else Inr self)"

definition load_flags :: "(string \<times> yaml) list \<Rightarrow> 'e Rule \<Rightarrow> error + 'e Rule" where
  "load_flags data self =
     (let self = self\<lparr>is_license_text :=
                        yaml_truthy (data_get data ''is_license_text'' (YBool False))\<rparr>;
          self = self\<lparr>is_license_notice :=
                        yaml_truthy (data_get data ''is_license_notice'' (YBool False))\<rparr>;
          self = self\<lparr>is_license_tag :=
                        yaml_truthy (data_get data ''is_license_tag'' (YBool False))\<rparr>;
          self = self\<lparr>is_license_reference :=
                        yaml_truthy (data_get data ''is_license_reference'' (YBool False))\<rparr>;
          self = self\<lparr>only_known_words :=
                        yaml_truthy (data_get data ''only_known_words'' (YBool False))\<rparr>;
          referenced = data_get data ''referenced_filenames'' (YList []);
          referenced = (if yaml_truthy referenced then referenced else YList [])
      in case referenced of
           YList xs \<Rightarrow> Inr (self\<lparr>referenced_filenames := xs\<rparr>)
         | _ \<Rightarrow>
             Inl (Exception
               (''License rule {} data file has an invalid referenced_filenames. ''
                  @ ''Should be a list: {}'')))"

definition load_notes :: "(string \<times> yaml) list \<Rightarrow> 'e Rule \<Rightarrow> error + 'e Rule" where
  "load_notes data self =
     and_then
       (let notes = data_get data ''notes'' YNone
        in if yaml_truthy notes then
             (case notes of
                YStr s \<Rightarrow> Inr (self\<lparr>notes_R := Some (strip s)\<rparr>)
              | _ \<Rightarrow> Inl AttributeError)
           else Inr self)
       (\<lambda>self.
          if \<not> truthy (notes_R self) \<and> (is_negative self \<or> is_false_positive self)
          then Inl (Exception ''Special License rule {} is missing explanatory notes.'')
          else Inr self)"

definition Rule_load :: "'e env \<Rightarrow> 'e Rule \<Rightarrow> error + 'e Rule" where
  "Rule_load E self =
     (case data_file self of
        None \<Rightarrow> Inl TypeError
      | Some df \<Rightarrow>
          and_then (io_read E df) (\<lambda>content.
          and_then (saneyaml_load E content) (\<lambda>data.
            let unknown_attributes =
                  filter (\<lambda>k. k \<notin> set known_attributes) (map fst data)
            in if unknown_attributes \<noteq> []
               then Inl (Exception ''License rule {} data file has unknown attributes: {}'')
               else
                 and_then (load_expression data self) (\<lambda>self.
                 and_then (load_relevance E data self) (\<lambda>self.
                 and_then (load_minimum_coverage E data self) (\<lambda>self.
                 and_then (load_flags data self) (\<lambda>self.
                 load_notes data self)))))))"

subsection \<open>Rule.\_\_attrs\_post\_init\_\_\<close>

text \<open>
  \<^verbatim>\<open>Rule(...)\<close> is \<open>Rule_post_init\<close> on the record of the attributes given to the
  constructor (\<open>Rule_defaults\<close> for the others). The traceback that the source adds
  to a message is left as \<^verbatim>\<open>{trace}\<close>, the \<^verbatim>\<open>repr\<close> of the expression as
  \<^verbatim>\<open>{!r}\<close>. Building the message of a parse failure from a \<^verbatim>\<open>data_file\<close> that is
  \<^verbatim>\<open>None\<close> raises TypeError.
\<close>

definition init_identifier :: "'e env \<Rightarrow> 'e Rule \<Rightarrow> error + 'e Rule" where
  "init_identifier E self =
     (if \<not> truthy (text_file self) then
        (if \<not> truthy (stored_text self)
         then Inl (Exception ''Invalid rule without its corresponding text file: {}'')
         else Inr (self\<lparr>identifier_R :=
                          Some (''_tst_'' @ str_nat (length (the (stored_text self))))\<rparr>))
      else Inr (self\<lparr>identifier_R := Some (file_name E (the (text_file self)))\<rparr>))"

definition init_load :: "'e env \<Rightarrow> 'e Rule \<Rightarrow> error + 'e Rule" where
  "init_load E self =
     (if truthy (data_file self) then
        (case Rule_load E self of
           Inl e \<Rightarrow>
             Inl (Exception
               (''While loading: file://'' @ the (data_file self) @ ''\<newline>{trace}''))
         | Inr self \<Rightarrow> Inr self)
      else Inr self)"

definition parse_failure :: "'e Rule \<Rightarrow> string \<Rightarrow> error" where
  "parse_failure self trace =
     (case data_file self of
        None \<Rightarrow> TypeError
      | Some df \<Rightarrow>
          Exception
            (''Unable to parse License rule expression: {!r} for: file://'' @ df @ trace))"

definition init_expression :: "'e env \<Rightarrow> 'e Rule \<Rightarrow> error + 'e Rule" where
  "init_expression E self =
     (if truthy (license_expression self) then
        (case licensing_parse E (the (license_expression self)) of
           Inl e \<Rightarrow> Inl (parse_failure self ''\<newline>{trace}'')
         | Inr None \<Rightarrow> Inl (parse_failure self [])
         | Inr (Some expression) \<Rightarrow>
             Inr (self\<lparr>license_expression := Some (expression_render E expression),
                       license_expression_object := Some expression\<rparr>))
      else Inr self)"

definition Rule_post_init :: "'e env \<Rightarrow> 'e Rule \<Rightarrow> error + 'e Rule" where
  "Rule_post_init E self =
     and_then (init_identifier E self) (\<lambda>self.
     and_then (init_load E self) (\<lambda>self.
       let self = (if relevance self \<noteq> 0 \<and> relevance self \<noteq> 100
                   then self\<lparr>has_stored_relevance := True\<rparr> else self)
       in init_expression E self))"

subsection \<open>Rule.license\_keys and Rule.has\_importance\_flags\<close>

definition license_keys :: "'e env \<Rightarrow> bool \<Rightarrow> 'e Rule \<Rightarrow> string list" where
  "license_keys E unique self =
     (if \<not> truthy (license_expression self) then []
      else licensing_license_keys E (license_expression_object self) unique)"

definition has_importance_flags :: "'e Rule \<Rightarrow> bool" where
  "has_importance_flags self =
     (is_license_text self \<or> is_license_notice self \<or> is_license_reference self
      \<or> is_license_tag self)"

subsection \<open>check\_rules\_integrity\<close>

text \<open>
  \<^verbatim>\<open>invalid_rules\<close> is a \<^verbatim>\<open>defaultdict(set)\<close> from the data file of a rule (which
  may be \<^verbatim>\<open>None\<close>) to its unknown keys; \<open>dd_set_update\<close> is
  \<^verbatim>\<open>d[k].update(vs)\<close>. \<^verbatim>\<open>rules_without_flags\<close> is a set of data files;
  \<^verbatim>\<open>sorted\<close> puts \<^verbatim>\<open>None\<close> before every string.
\<close>

fun dd_set_update :: "'k \<Rightarrow> 'v list \<Rightarrow> ('k \<times> 'v list) list \<Rightarrow> ('k \<times> 'v list) list" where
  "dd_set_update k vs [] = [(k, set_update vs [])]"
| "dd_set_update k vs ((k', s) # d) =
     (if k = k' then (k', set_update vs s) # d else (k', s) # dd_set_update k vs d)"

definition unknown_keys :: "'e env \<Rightarrow> (string \<times> License) list \<Rightarrow> 'e Rule \<Rightarrow> string list" where
  "unknown_keys E licenses_by_key rule =
     filter (\<lambda>key. key \<notin> set (map fst licenses_by_key)) (license_keys E True rule)"

text \<open>The body of the loop \<^verbatim>\<open>for rule in rules\<close>, on the two collections.\<close>

definition check_rule ::
  "'e env \<Rightarrow> (string \<times> License) list \<Rightarrow> 'e Rule \<Rightarrow>
   (string option \<times> string list) list \<times> string option list \<Rightarrow>
   (string option \<times> string list) list \<times> string option list" where
  "check_rule E licenses_by_key rule acc =
     (let (invalid_rules, rules_without_flags) = acc;
          unknown = unknown_keys E licenses_by_key rule;
          invalid_rules =
            (if unknown \<noteq> [] then dd_set_update (data_file rule) unknown invalid_rules
             else invalid_rules);
          rules_without_flags =
            (if \<not> has_importance_flags rule
                \<and> \<not> (is_negative rule \<or> is_false_positive rule)
             then set_add (data_file rule) rules_without_flags
             else rules_without_flags)
      in (invalid_rules, rules_without_flags))"

text \<open>
  The lines of the two messages for one data file. \<^verbatim>\<open>'file://' + data_file\<close> raises
  TypeError when the data file is \<^verbatim>\<open>None\<close>: the value is then \<open>None\<close>.
  \<^verbatim>\<open>' '.join(keys)\<close> joins the keys in the order in which Python iterates over the
  set, which the language leaves open; here it is the order of insertion, and what is
  proved of a message is proved for some order of the keys.
\<close>

definition missing_license_lines :: "string option \<times> string list \<Rightarrow> string option" where
  "missing_license_lines item =
     (case item of
        (None, keys) \<Rightarrow> None
      | (Some df, keys) \<Rightarrow>
          Some (str_join '' '' keys @ ''\<newline>''
                @ ''file://'' @ df @ ''\<newline>''
                @ ''file://'' @ str_replace ''.yml'' ''.RULE'' df @ ''\<newline>''))"

definition missing_flags_lines :: "string option \<Rightarrow> string option" where
  "missing_flags_lines item =
     (case item of
        None \<Rightarrow> None
      | Some df \<Rightarrow>
          Some (''file://'' @ df @ ''\<newline>''
                @ ''file://'' @ str_replace ''.yml'' ''.RULE'' df @ ''\<newline>''))"

definition check_rules_integrity ::
  "'e env \<Rightarrow> 'e Rule list \<Rightarrow> (string \<times> License) list \<Rightarrow> error + unit" where
  "check_rules_integrity E rules licenses_by_key =
     (let (invalid_rules, rules_without_flags) =
            fold (check_rule E licenses_by_key) rules ([], [])
      in if invalid_rules \<noteq> [] then
           (case those (map missing_license_lines
                          (filter (\<lambda>(df, keys). keys \<noteq> []) invalid_rules)) of
              None \<Rightarrow> Inl TypeError
            | Some lines \<Rightarrow>
                Inl (MissingLicenses
                  (''Rules referencing missing licenses:\<newline>''
                     @ str_join ''\<newline>'' (sort lines))))
         else if rules_without_flags \<noteq> [] then
           (case those (map missing_flags_lines (sort rules_without_flags)) of
              None \<Rightarrow> Inl TypeError
            | Some lines \<Rightarrow>
                Inl (MissingFlags
                  (''Rules without is_license_xxx flags:\<newline>''
                     @ str_join ''\<newline>'' (sort lines))))
         else Inr ())"

subsection \<open>build\_rules\_from\_licenses\<close>

text \<open>
  The generator \<^verbatim>\<open>build_rules_from_licenses\<close>, iterated to its end on the items of
  \<^verbatim>\<open>licenses\<close>: the rules it yields, and the exception that ends it, if any.
\<close>

fun build_rules_from_licenses ::
  "'e env \<Rightarrow> (string \<times> License) list \<Rightarrow> 'e Rule list \<times> error option" where
  "build_rules_from_licenses E [] = ([], None)"
| "build_rules_from_licenses E ((license_key, license_obj) # licenses) =
     (case join (src_dir license_obj) (License.text_file license_obj) of
        Inl e \<Rightarrow> ([], Some e)
      | Inr text_file' \<Rightarrow>
          let minimum_coverage' =
                (if License.minimum_coverage license_obj \<noteq> 0
                 then License.minimum_coverage license_obj else 0);
              has_stored_relevance' = (License.relevance license_obj \<noteq> 100);
              relevance' =
                (if License.relevance license_obj \<noteq> 0
                 then License.relevance license_obj else 100)
          in if exists E text_file' then
               (case Rule_post_init E
                       (Rule_defaults
                          \<lparr>license_expression := Some license_key,
                           is_license_text := True,
                           minimum_coverage := of_int minimum_coverage',
                           relevance := of_int relevance',
                           has_stored_relevance := has_stored_relevance',
                           is_license := True,
                           text_file := Some text_file'\<rparr>) of
                  Inl e \<Rightarrow> ([], Some e)
                | Inr rule \<Rightarrow>
                    (let (rules, raised) = build_rules_from_licenses E licenses
                     in (rule # rules, raised)))
             else build_rules_from_licenses E licenses)"

subsection \<open>A small corpus\<close>

text \<open>
  An instance of the imported functions, for the examples: license expressions are
  lists of keys, the tokenizer makes one token of a non-empty text, and the files are
  three license texts (one of them empty) and the data files of two rules.
\<close>

definition sample_files :: "(string \<times> string) list" where
  "sample_files =
     [(''/licenses/mit.LICENSE'', ''Permission is hereby granted''),
      (''/licenses/x11.LICENSE'', ''Permission is hereby granted''),
      (''/licenses/empty.LICENSE'', []),
      (''/rules/coverage.yml'', ''license_expression: mit minimum_coverage: 150''),
      (''/rules/coverage.RULE'', ''MIT License'')]"

definition sample_env :: "string list env" where
  "sample_env =
     \<lparr>exists = (\<lambda>p. p \<in> set (map fst sample_files)),
      io_read = (\<lambda>p. case map_of sample_files p of None \<Rightarrow> Inl IOError | Some t \<Rightarrow> Inr t),
      saneyaml_load =
        (\<lambda>t. if t = ''license_expression: mit minimum_coverage: 150''
             then Inr [(''license_expression'', YStr ''mit''),
                       (''is_license_notice'', YBool True),
                       (''minimum_coverage'', YStr ''150'')]
             else Inl (Exception ''yaml'')),
      float_of_str = (\<lambda>s. if s = ''150'' then Some 150 else None),
      numbered_text_lines =
        (\<lambda>p. case map_of sample_files p of None \<Rightarrow> [] | Some t \<Rightarrow> [(1, t)]),
      query_tokenizer = (\<lambda>t lower. if t = [] then [] else [t]),
      file_name = (\<lambda>p. rev (takeWhile (\<lambda>c. c \<noteq> CHR ''/'') (rev p))),
      licensing_parse = (\<lambda>s. Inr (Some [s])),
      expression_render = str_join '' AND '',
      licensing_license_keys = (\<lambda>e unique. case e of None \<Rightarrow> [] | Some ks \<Rightarrow> ks)\<rparr>"

definition sample_license :: "string \<Rightarrow> License" where
  "sample_license k =
     (License_defaults k (Some ''/licenses''))
       \<lparr>short_name := Some k, name := Some k, category := Some ''Permissive'',
        owner := Some ''MIT'',
        License.data_file := Some (''/licenses/'' @ k @ ''.yml''),
        License.text_file := Some (''/licenses/'' @ k @ ''.LICENSE'')\<rparr>"

text \<open>The rule that the constructor makes of the data file \<^verbatim>\<open>/rules/coverage.yml\<close>.\<close>

definition sample_rule :: "string list Rule" where
  "sample_rule =
     Rule_defaults
       \<lparr>identifier_R := Some ''coverage.RULE'',
        license_expression := Some ''mit'',
        license_expression_object := Some [''mit''],
        is_license_notice := True,
        minimum_coverage := 150,
        data_file := Some ''/rules/coverage.yml'',
        text_file := Some ''/rules/coverage.RULE''\<rparr>"

section \<open>Properties\<close>

subsection \<open>Relevance computed from the length\<close>

lemma py_round2_18: "py_round2 ((1 / 18) * 100) = 139 / 25"
  by (simp add: py_round2_def floor_eq_iff)

lemma computed_small:
  assumes "n < (18::nat)"
  shows "py_int (of_nat n * (139 / 25)) = int (n * 100 div 18)"
proof -
  from assms have "n \<in> set [0..<18]"
    by simp
  then show ?thesis
    by (auto simp: upt_rec_numeral py_int_def floor_eq_iff)
qed

lemma relevance_formula:
  assumes "\<not> has_stored_relevance r" "\<not> is_false_positive r" "\<not> is_negative r"
  shows "relevance (compute_relevance r) =
      (if 18 \<le> length_R r then 100 else of_nat (min 100 (length_R r * 100 div 18)))"
proof (cases "18 \<le> length_R r")
  case True
  then show ?thesis using assms by (simp add: compute_relevance_def Let_def)
next
  case False
  then have lt: "length_R r < 18" by simp
  have "relevance (compute_relevance r) =
      of_int (min 100 (py_int (of_nat (length_R r) * py_round2 ((1 / 18) * 100))))"
    using assms False by (simp add: compute_relevance_def Let_def)
  also have "\<dots> = of_int (min 100 (int (length_R r * 100 div 18)))"
    by (simp only: py_round2_18 computed_small[OF lt])
  also have "\<dots> = of_nat (min 100 (length_R r * 100 div 18))"
    by (simp add: min_def)
  finally show ?thesis using False by simp
qed

lemma relevance_mono:
  assumes "\<not> has_stored_relevance r" "\<not> is_false_positive r" "\<not> is_negative r"
    "\<not> has_stored_relevance r'" "\<not> is_false_positive r'" "\<not> is_negative r'"
    "length_R r \<le> length_R r'"
  shows "relevance (compute_relevance r) \<le> relevance (compute_relevance r')"
proof -
  have le: "min 100 (length_R r * 100 div 18) \<le> min 100 (length_R r' * 100 div 18)"
    using assms(7) by (simp add: div_le_mono min_le_iff_disj)
  have le100: "(of_nat (min 100 (length_R r * 100 div 18)) :: rat) \<le> 100"
    by (metis min.cobounded1 of_nat_le_iff of_nat_numeral)
  show ?thesis
    unfolding relevance_formula[OF assms(1-3)] relevance_formula[OF assms(4-6)]
    using assms(7) le le100 by (auto simp del: of_nat_min of_nat_mult)
qed

text \<open>
  Claim C1. For a rule without stored relevance that is neither a false positive nor
  negative, \<^verbatim>\<open>compute_relevance\<close> sets the relevance to 100 when the length is at
  least 18 and to \<open>min 100 \<lfloor>length * 100 / 18\<rfloor>\<close> when it is below 18; and the
  computed relevance does not decrease when the length grows.
\<close>

theorem compute_relevance_by_length:
  assumes "\<not> has_stored_relevance r" and "\<not> is_false_positive r" and "\<not> is_negative r"
  shows "(18 \<le> length_R r \<longrightarrow> relevance (compute_relevance r) = 100) \<and>
         (length_R r < 18 \<longrightarrow>
            relevance (compute_relevance r) = of_nat (min 100 (length_R r * 100 div 18))) \<and>
         (\<forall>r' :: 'b Rule.
            \<not> has_stored_relevance r' \<and> \<not> is_false_positive r' \<and> \<not> is_negative r' \<and>
            length_R r \<le> length_R r' \<longrightarrow>
            relevance (compute_relevance r) \<le> relevance (compute_relevance r'))"
proof (intro conjI allI impI)
  assume "18 \<le> length_R r"
  then show "relevance (compute_relevance r) = 100"
    by (simp add: relevance_formula[OF assms])
next
  assume "length_R r < 18"
  then show "relevance (compute_relevance r) = of_nat (min 100 (length_R r * 100 div 18))"
    by (simp only: relevance_formula[OF assms] not_le[symmetric] if_False)
next
  fix r' :: "'b Rule"
  assume "\<not> has_stored_relevance r' \<and> \<not> is_false_positive r' \<and> \<not> is_negative r' \<and>
    length_R r \<le> length_R r'"
  then show "relevance (compute_relevance r) \<le> relevance (compute_relevance r')"
    using relevance_mono[OF assms, of r'] by blast
qed

theorem compute_relevance_by_length_witness:
  "\<not> has_stored_relevance ((Rule_defaults :: unit Rule)\<lparr>length_R := 7\<rparr>) \<and>
   \<not> is_false_positive ((Rule_defaults :: unit Rule)\<lparr>length_R := 7\<rparr>) \<and>
   \<not> is_negative ((Rule_defaults :: unit Rule)\<lparr>length_R := 7\<rparr>) \<and>
   relevance (compute_relevance ((Rule_defaults :: unit Rule)\<lparr>length_R := 7\<rparr>)) = 38 \<and>
   relevance (compute_relevance ((Rule_defaults :: unit Rule)\<lparr>length_R := 7\<rparr>))
     \<le> relevance (compute_relevance ((Rule_defaults :: unit Rule)\<lparr>length_R := 18\<rparr>)) \<and>
   relevance (compute_relevance ((Rule_defaults :: unit Rule)\<lparr>length_R := 18\<rparr>)) = 100"
  using compute_relevance_by_length
          [of "(Rule_defaults :: unit Rule)\<lparr>length_R := 7\<rparr>", where ?'b = unit]
        compute_relevance_by_length
          [of "(Rule_defaults :: unit Rule)\<lparr>length_R := 18\<rparr>", where ?'b = unit]
  by (simp add: Rule_defaults_def)

text \<open>
  Claim C3. For a rule without stored relevance that is a false positive or negative,
  \<^verbatim>\<open>compute_relevance\<close> sets the relevance to 100, whatever the length.
\<close>

theorem compute_relevance_special:
  assumes "\<not> has_stored_relevance r" and "is_false_positive r \<or> is_negative r"
  shows "relevance (compute_relevance r) = 100"
  using assms by (auto simp: compute_relevance_def)

theorem compute_relevance_special_witness:
  "\<not> has_stored_relevance
       ((Rule_defaults :: unit Rule)\<lparr>is_negative := True, relevance := 7, length_R := 2\<rparr>) \<and>
   is_negative
       ((Rule_defaults :: unit Rule)\<lparr>is_negative := True, relevance := 7, length_R := 2\<rparr>) \<and>
   relevance (compute_relevance
       ((Rule_defaults :: unit Rule)\<lparr>is_negative := True, relevance := 7, length_R := 2\<rparr>))
     = 100"
  using compute_relevance_special
    [of "(Rule_defaults :: unit Rule)\<lparr>is_negative := True, relevance := 7, length_R := 2\<rparr>"]
  by (simp add: Rule_defaults_def)

subsection \<open>Small rules and thresholds\<close>

text \<open>
  Claim C6. \<^verbatim>\<open>small()\<close> of a \<^verbatim>\<open>Rule\<close> is true exactly when the length is below 15
  or \<^verbatim>\<open>minimum_coverage\<close> is 100; \<^verbatim>\<open>small()\<close> of an \<^verbatim>\<open>SpdxRule\<close> is false.
\<close>

theorem small_iff:
  "(py_class r = Rule_class \<longrightarrow> small r = (length_R r < 15 \<or> minimum_coverage r = 100)) \<and>
   (py_class r = SpdxRule_class \<longrightarrow> \<not> small r)"
  by (simp add: small_def Rule_small_def SpdxRule_small_def)

theorem small_iff_witness:
  "py_class ((Rule_defaults :: unit Rule)\<lparr>minimum_coverage := 100, length_R := 40\<rparr>)
     = Rule_class \<and>
   small ((Rule_defaults :: unit Rule)\<lparr>minimum_coverage := 100, length_R := 40\<rparr>) \<and>
   py_class ((Rule_defaults :: unit Rule)\<lparr>length_R := 40\<rparr>) = Rule_class \<and>
   \<not> small ((Rule_defaults :: unit Rule)\<lparr>length_R := 40\<rparr>) \<and>
   py_class ((Rule_defaults :: unit Rule)\<lparr>py_class := SpdxRule_class, length_R := 3\<rparr>)
     = SpdxRule_class \<and>
   \<not> small ((Rule_defaults :: unit Rule)\<lparr>py_class := SpdxRule_class, length_R := 3\<rparr>)"
  using small_iff [of "(Rule_defaults :: unit Rule)\<lparr>minimum_coverage := 100, length_R := 40\<rparr>"]
        small_iff [of "(Rule_defaults :: unit Rule)\<lparr>length_R := 40\<rparr>"]
        small_iff [of "(Rule_defaults :: unit Rule)\<lparr>py_class := SpdxRule_class, length_R := 3\<rparr>"]
  by (simp add: Rule_defaults_def)

lemma thresholds_min_coverage_100:
  assumes "minimum_coverage r = 100" and "thresholds_attr r = None"
  shows "min_high (fst (thresholds ML MH r)) = high_length r \<and>
         min_len (fst (thresholds ML MH r)) = length_R r"
  using assms by (simp add: thresholds_def Let_def)

lemma thresholds_unique_min_coverage_100:
  assumes "minimum_coverage r = 100" and "thresholds_unique_attr r = None"
  shows "min_high (fst (thresholds_unique ML MH r)) = high_unique r \<and>
         min_len (fst (thresholds_unique ML MH r)) = length_unique r"
  using assms by (simp add: thresholds_unique_def Let_def)

text \<open>
  Claim C2. When \<^verbatim>\<open>minimum_coverage\<close> is 100 at the time \<^verbatim>\<open>thresholds()\<close>, and
  likewise \<^verbatim>\<open>thresholds_unique()\<close>, is first computed (its cache is still empty), the
  returned tuple has \<open>min_high\<close> and \<open>min_len\<close> equal to the full counts:
  \<open>high_length\<close> and \<open>length\<close> for the first, \<open>high_unique\<close> and \<open>length_unique\<close>
  for the second. This holds for every value of the two package constants.
\<close>

theorem thresholds_full_coverage:
  assumes "minimum_coverage r = 100"
  shows "(thresholds_attr r = None \<longrightarrow>
            min_high (fst (thresholds ML MH r)) = high_length r \<and>
            min_len (fst (thresholds ML MH r)) = length_R r) \<and>
         (thresholds_unique_attr r = None \<longrightarrow>
            min_high (fst (thresholds_unique ML MH r)) = high_unique r \<and>
            min_len (fst (thresholds_unique ML MH r)) = length_unique r)"
  using thresholds_min_coverage_100[OF assms] thresholds_unique_min_coverage_100[OF assms]
  by blast

theorem thresholds_full_coverage_witness:
  "minimum_coverage ((Rule_defaults :: unit Rule)
      \<lparr>minimum_coverage := 100, length_R := 7, high_length := 5,
       high_unique := 4, length_unique := 6\<rparr>) = 100 \<and>
   thresholds_attr ((Rule_defaults :: unit Rule)
      \<lparr>minimum_coverage := 100, length_R := 7, high_length := 5,
       high_unique := 4, length_unique := 6\<rparr>) = None \<and>
   thresholds_unique_attr ((Rule_defaults :: unit Rule)
      \<lparr>minimum_coverage := 100, length_R := 7, high_length := 5,
       high_unique := 4, length_unique := 6\<rparr>) = None \<and>
   min_high (fst (thresholds 4 3 ((Rule_defaults :: unit Rule)
      \<lparr>minimum_coverage := 100, length_R := 7, high_length := 5,
       high_unique := 4, length_unique := 6\<rparr>))) = 5 \<and>
   min_len (fst (thresholds 4 3 ((Rule_defaults :: unit Rule)
      \<lparr>minimum_coverage := 100, length_R := 7, high_length := 5,
       high_unique := 4, length_unique := 6\<rparr>))) = 7 \<and>
   min_high (fst (thresholds_unique 4 3 ((Rule_defaults :: unit Rule)
      \<lparr>minimum_coverage := 100, length_R := 7, high_length := 5,
       high_unique := 4, length_unique := 6\<rparr>))) = 4 \<and>
   min_len (fst (thresholds_unique 4 3 ((Rule_defaults :: unit Rule)
      \<lparr>minimum_coverage := 100, length_R := 7, high_length := 5,
       high_unique := 4, length_unique := 6\<rparr>))) = 6"
  using thresholds_full_coverage
    [of "(Rule_defaults :: unit Rule)
      \<lparr>minimum_coverage := 100, length_R := 7, high_length := 5,
       high_unique := 4, length_unique := 6\<rparr>" 4 3]
  by (simp add: Rule_defaults_def)

subsection \<open>The text of a license\<close>

text \<open>
  Claim C10. For a license whose text file does not exist, the property
  \<^verbatim>\<open>License.text\<close> is the empty string: nothing is raised.
\<close>

theorem License_text_missing_file:
  assumes "License.text_file l = Some p" and "\<not> exists E p"
  shows "License_text E l = Inr []"
  using assms by (simp add: License_text_def read_text_def)

theorem License_text_missing_file_witness:
  "License.text_file (sample_license ''bsd'') = Some ''/licenses/bsd.LICENSE'' \<and>
   \<not> exists sample_env ''/licenses/bsd.LICENSE'' \<and>
   License_text sample_env (sample_license ''bsd'') = Inr []"
  using License_text_missing_file
    [of "sample_license ''bsd''" "''/licenses/bsd.LICENSE''" sample_env]
  by (simp add: sample_license_def sample_env_def sample_files_def)

subsection \<open>Tokens of a bare URL\<close>

lemma Rule_text_minimum_coverage [simp]:
  "Rule_text E (self\<lparr>minimum_coverage := m\<rparr>) = Rule_text E self"
  by (simp add: Rule_text_def)

lemma minimum_coverage_compute_relevance [simp]:
  "minimum_coverage (compute_relevance self) = minimum_coverage self"
  by (simp add: compute_relevance_def Let_def)

lemma tokens_url_stripped:
  assumes "Rule_text E r = Inr t"
    and "prefix ''http://'' (strip t) \<or> prefix ''https://'' (strip t) \<or> prefix ''ftp://'' (strip t)"
    and "CHR 0x0A \<notin> set (take 1000 (strip t))"
  shows "\<exists>yielded r'. tokens E lower r = Inr (yielded, r') \<and> minimum_coverage r' = 100"
  using assms by (simp add: tokens_def Let_def)

lemma strip_no_leading:
  assumes "t \<noteq> []" "\<not> isspace (hd t)"
  shows "\<exists>ws. t = strip t @ ws \<and> (\<forall>c \<in> set ws. isspace c)"
proof -
  have a: "dropWhile isspace t = t" using assms by (cases t) auto
  have "rev t = takeWhile isspace (rev t) @ dropWhile isspace (rev t)" by simp
  then have "t = rev (dropWhile isspace (rev t)) @ rev (takeWhile isspace (rev t))"
    by (metis rev_append rev_rev_ident)
  moreover have "\<forall>c \<in> set (rev (takeWhile isspace (rev t))). isspace c"
    by (auto dest: set_takeWhileD)
  ultimately show ?thesis unfolding strip_def a by blast
qed

lemma prefix_strip:
  assumes "prefix s t" "s \<noteq> []" "\<not> isspace (hd s)" "\<not> isspace (last s)"
  shows "prefix s (strip t)"
proof -
  from assms obtain u where t: "t = s @ u" by (auto simp: prefix_def)
  have "t \<noteq> []" "\<not> isspace (hd t)" using assms t by auto
  from strip_no_leading[OF this] obtain ws where
    ws: "t = strip t @ ws" "\<forall>c \<in> set ws. isspace c" by blast
  have "prefix s (strip t) \<or> prefix (strip t) s"
    using t ws(1) by (metis append_eq_append_conv2 prefixI)
  moreover {
    assume "prefix (strip t) s" "strip t \<noteq> s"
    then obtain v where v: "s = strip t @ v" "v \<noteq> []" by (auto simp: prefix_def)
    with t ws(1) have "ws = v @ u" by (metis append.assoc same_append_eq)
    then have "last v \<in> set ws" using v(2) by auto
    then have "isspace (last v)" using ws(2) by blast
    then have "isspace (last s)" using v by simp
    with assms have False by simp }
  ultimately show ?thesis by auto
qed

lemma take_strip_subset:
  assumes "t \<noteq> []" "\<not> isspace (hd t)"
  shows "set (take n (strip t)) \<subseteq> set (take n t)"
proof -
  from strip_no_leading[OF assms] obtain ws where "t = strip t @ ws" by blast
  then have "take n t = take n (strip t) @ take (n - length (strip t)) ws"
    by (metis take_append)
  then show ?thesis by auto
qed

lemma schemes: "\<not> isspace CHR ''h''" "\<not> isspace CHR ''f''" "\<not> isspace CHR ''/''"
  by (simp_all add: isspace_def)

text \<open>
  Claim C5. When the text of a rule starts with \<^verbatim>\<open>http://\<close>, \<^verbatim>\<open>https://\<close> or
  \<^verbatim>\<open>ftp://\<close> and has no newline in its first 1000 characters, \<^verbatim>\<open>tokens()\<close>,
  iterated to its end, returns and leaves \<^verbatim>\<open>minimum_coverage\<close> at 100. (The source
  tests the stripped text; \<open>tokens_url_stripped\<close> is the same statement for it.)
\<close>

theorem tokens_bare_url:
  assumes "Rule_text E r = Inr t"
    and "prefix ''http://'' t \<or> prefix ''https://'' t \<or> prefix ''ftp://'' t"
    and "CHR 0x0A \<notin> set (take 1000 t)"
  shows "\<exists>yielded r'. tokens E lower r = Inr (yielded, r') \<and> minimum_coverage r' = 100"
proof -
  from assms(2) have ne: "t \<noteq> []" "\<not> isspace (hd t)"
    by (auto simp: prefix_def schemes)
  have "prefix ''http://'' (strip t) \<or> prefix ''https://'' (strip t) \<or> prefix ''ftp://'' (strip t)"
    using assms(2) by (auto intro!: prefix_strip simp: schemes)
  moreover have "CHR 0x0A \<notin> set (take 1000 (strip t))"
    using assms(3) take_strip_subset[OF ne] by blast
  ultimately show ?thesis using tokens_url_stripped[OF assms(1)] by blast
qed


theorem tokens_bare_url_witness:
  "Rule_text sample_env
     ((Rule_defaults)\<lparr>stored_text := Some ''https://example.org/license''\<rparr>)
     = Inr ''https://example.org/license'' \<and>
   prefix ''https://'' ''https://example.org/license'' \<and>
   CHR 0x0A \<notin> set (take 1000 ''https://example.org/license'') \<and>
   (\<exists>yielded r'.
      tokens sample_env True
        ((Rule_defaults)\<lparr>stored_text := Some ''https://example.org/license''\<rparr>)
        = Inr (yielded, r') \<and> minimum_coverage r' = 100)"
  using tokens_bare_url
    [of sample_env "(Rule_defaults)\<lparr>stored_text := Some ''https://example.org/license''\<rparr>"
        "''https://example.org/license''" True]
  by (simp add: Rule_text_def Rule_defaults_def truthy_def)

subsection \<open>Loading a rule with a minimum coverage out of range\<close>

lemma load_minimum_coverage_unchecked:
  assumes "py_float E (data_get data ''minimum_coverage'' (YNum 0)) = Inr f"
    and "0 \<le> relevance self" and "relevance self \<le> 100"
  shows "load_minimum_coverage E data self = Inr (self\<lparr>minimum_coverage := f\<rparr>)"
  using assms by (simp add: load_minimum_coverage_def and_then_def)

text \<open>
  Claim C7 says that \<^verbatim>\<open>Rule.load\<close> fails on a \<^verbatim>\<open>minimum_coverage\<close> outside 0 to
  100. The test after the assignment of \<^verbatim>\<open>minimum_coverage\<close> reads
  \<^verbatim>\<open>self.relevance\<close>, so no value of \<^verbatim>\<open>minimum_coverage\<close> is refused: the data
  file \<^verbatim>\<open>/rules/coverage.yml\<close> of the small corpus gives 150, and both
  \<^verbatim>\<open>Rule.load\<close> and the constructor return the rule with that value.
\<close>

theorem load_accepts_minimum_coverage_150:
  "Rule_load sample_env
     (Rule_defaults\<lparr>data_file := Some ''/rules/coverage.yml'',
                    text_file := Some ''/rules/coverage.RULE''\<rparr>)
   = Inr (Rule_defaults
            \<lparr>license_expression := Some ''mit'',
             is_license_notice := True,
             minimum_coverage := 150,
             data_file := Some ''/rules/coverage.yml'',
             text_file := Some ''/rules/coverage.RULE''\<rparr>) \<and>
   Rule_post_init sample_env
     (Rule_defaults\<lparr>data_file := Some ''/rules/coverage.yml'',
                    text_file := Some ''/rules/coverage.RULE''\<rparr>)
   = Inr (Rule_defaults
            \<lparr>identifier_R := Some ''coverage.RULE'',
             license_expression := Some ''mit'',
             license_expression_object := Some [''mit''],
             is_license_notice := True,
             minimum_coverage := 150,
             data_file := Some ''/rules/coverage.yml'',
             text_file := Some ''/rules/coverage.RULE''\<rparr>)"
  by (simp add: Rule_post_init_def init_identifier_def init_load_def init_expression_def
     Rule_load_def sample_env_def sample_files_def and_then_def known_attributes_def
     load_expression_def load_relevance_def load_minimum_coverage_def load_flags_def
     load_notes_def data_get_def Rule_defaults_def truthy_def Let_def)

subsection \<open>Rules built from licenses\<close>

lemma init_identifier_keeps:
  assumes "init_identifier E r = Inr r'"
  shows "text_file r' = text_file r \<and> minimum_coverage r' = minimum_coverage r \<and>
         relevance r' = relevance r \<and> is_license r' = is_license r \<and>
         is_license_text r' = is_license_text r \<and> data_file r' = data_file r"
proof (cases "truthy (text_file r)")
  case True
  with assms have "r' = r\<lparr>identifier_R := Some (file_name E (the (text_file r)))\<rparr>"
    by (simp add: init_identifier_def)
  then show ?thesis by simp
next
  case False
  with assms have "r' = r\<lparr>identifier_R :=
                          Some (''_tst_'' @ str_nat (length (the (stored_text r))))\<rparr>"
    by (simp add: init_identifier_def split: if_splits)
  then show ?thesis by simp
qed

lemma init_load_skip:
  assumes "data_file r = None"
  shows "init_load E r = Inr r"
  using assms by (simp add: init_load_def truthy_def)

lemma init_expression_keeps:
  assumes "init_expression E r = Inr r'"
  shows "text_file r' = text_file r \<and> minimum_coverage r' = minimum_coverage r \<and>
         relevance r' = relevance r \<and> is_license r' = is_license r \<and>
         is_license_text r' = is_license_text r"
proof (cases "truthy (license_expression r)")
  case False
  with assms have "r' = r" by (simp add: init_expression_def)
  then show ?thesis by simp
next
  case True
  show ?thesis
  proof (cases "licensing_parse E (the (license_expression r))")
    case (Inl e)
    with True assms show ?thesis by (simp add: init_expression_def)
  next
    case (Inr parsed)
    show ?thesis
    proof (cases parsed)
      case None
      with Inr True assms show ?thesis by (simp add: init_expression_def)
    next
      case (Some expression)
      with Inr True assms have "r' = r\<lparr>license_expression := Some (expression_render E expression),
                       license_expression_object := Some expression\<rparr>"
        by (simp add: init_expression_def)
      then show ?thesis by simp
    qed
  qed
qed

lemma Rule_post_init_keeps:
  assumes "Rule_post_init E r = Inr r'" and "data_file r = None"
  shows "text_file r' = text_file r \<and> minimum_coverage r' = minimum_coverage r \<and>
         relevance r' = relevance r \<and> is_license r' = is_license r \<and>
         is_license_text r' = is_license_text r"
proof -
  from assms(1) obtain r1 where r1: "init_identifier E r = Inr r1"
    by (cases "init_identifier E r") (simp_all add: Rule_post_init_def and_then_def)
  note k1 = init_identifier_keeps[OF r1]
  then have "data_file r1 = None" using assms(2) by simp
  then have l: "init_load E r1 = Inr r1" by (rule init_load_skip)
  define r2 where "r2 = (if relevance r1 \<noteq> 0 \<and> relevance r1 \<noteq> 100
                   then r1\<lparr>has_stored_relevance := True\<rparr> else r1)"
  have "init_expression E r2 = Inr r'"
    using assms(1) r1 l unfolding r2_def
    by (simp add: Rule_post_init_def and_then_def Let_def)
  note k2 = init_expression_keeps[OF this]
  have k3: "text_file r2 = text_file r1 \<and> minimum_coverage r2 = minimum_coverage r1 \<and>
         relevance r2 = relevance r1 \<and> is_license r2 = is_license r1 \<and>
         is_license_text r2 = is_license_text r1"
    unfolding r2_def by simp
  show ?thesis using k1 k2 k3 by simp
qed

lemma build_rules_yielded:
  fixes E :: "'e env"
  defines "h \<equiv> (\<lambda>(k :: string, l). case join (src_dir l) (License.text_file l) of
                              Inr p \<Rightarrow> exists E p | Inl e \<Rightarrow> False)"
    and "P \<equiv> (\<lambda>(r :: 'e Rule) (k :: string, l).
             text_file r = (case join (src_dir l) (License.text_file l) of
                              Inr p \<Rightarrow> Some p | Inl e \<Rightarrow> None) \<and>
             minimum_coverage r = of_int (License.minimum_coverage l) \<and>
             relevance r = of_int (if License.relevance l = 0 then 100 else License.relevance l) \<and>
             is_license r \<and> is_license_text r)"
  shows "\<exists>n. list_all2 P (fst (build_rules_from_licenses E licenses)) (take n (filter h licenses)) \<and>
       (snd (build_rules_from_licenses E licenses) = None \<longrightarrow> length (filter h licenses) \<le> n)"
proof (induction licenses)
  case Nil
  show ?case by simp
next
  case (Cons item licenses)
  obtain k l where item: "item = (k, l)" by (cases item)
  from Cons.IH obtain n where
    n1: "list_all2 P (fst (build_rules_from_licenses E licenses)) (take n (filter h licenses))"
    and n2: "snd (build_rules_from_licenses E licenses) = None \<longrightarrow> length (filter h licenses) \<le> n"
    by (elim exE conjE)
  show ?case
  proof (cases "join (src_dir l) (License.text_file l)")
    case (Inl e)
    then have "build_rules_from_licenses E (item # licenses) = ([], Some e)"
      unfolding item by simp
    then show ?thesis by (intro exI[of _ 0]) simp
  next
    case (Inr p)
    show ?thesis
    proof (cases "exists E p")
      case False
      then have b: "build_rules_from_licenses E (item # licenses) = build_rules_from_licenses E licenses"
        unfolding item using Inr by (simp add: Let_def)
      have f: "filter h (item # licenses) = filter h licenses"
        unfolding item using Inr False by (simp add: h_def)
      show ?thesis unfolding b f using n1 n2 by (intro exI[of _ n] conjI)
    next
      case True
      let ?r0 = "Rule_defaults
                  \<lparr>license_expression := Some k, is_license_text := True,
                   minimum_coverage := of_int (if License.minimum_coverage l \<noteq> 0
                      then License.minimum_coverage l else 0),
                   relevance := of_int (if License.relevance l \<noteq> 0
                      then License.relevance l else 100),
                   has_stored_relevance := (License.relevance l \<noteq> 100),
                   is_license := True, text_file := Some p\<rparr>"
      have f: "filter h (item # licenses) = item # filter h licenses"
        unfolding item using Inr True by (simp add: h_def)
      show ?thesis
      proof (cases "Rule_post_init E ?r0")
        case (Inl e)
        then have "build_rules_from_licenses E (item # licenses) = ([], Some e)"
          unfolding item using Inr True by (simp add: Let_def)
        then show ?thesis by (intro exI[of _ 0]) simp
      next
        case r: (Inr rule)
        have "data_file ?r0 = None" by (simp add: Rule_defaults_def)
        from Rule_post_init_keeps[OF r this]
        have keeps: "P rule item" unfolding item P_def using Inr by (simp add: Rule_defaults_def)
        have b: "build_rules_from_licenses E (item # licenses) =
            (rule # fst (build_rules_from_licenses E licenses),
             snd (build_rules_from_licenses E licenses))"
          unfolding item using Inr True r by (simp add: Let_def split: prod.splits)
        show ?thesis unfolding b f using keeps n1 n2
          by (intro exI[of _ "Suc n"]) simp
      qed
    qed
  qed
qed

lemma sample_build:
  "build_rules_from_licenses sample_env
     [(''mit'', (sample_license ''mit'')\<lparr>License.relevance := 0\<rparr>),
      (''bsd'', sample_license ''bsd''),
      (''empty'', sample_license ''empty'')]
   = ([Rule_defaults
         \<lparr>identifier_R := Some ''mit.LICENSE'', license_expression := Some ''mit'',
          license_expression_object := Some [''mit''], is_license_text := True,
          has_stored_relevance := True, is_license := True,
          text_file := Some ''/licenses/mit.LICENSE''\<rparr>,
       Rule_defaults
         \<lparr>identifier_R := Some ''empty.LICENSE'', license_expression := Some ''empty'',
          license_expression_object := Some [''empty''], is_license_text := True,
          is_license := True, text_file := Some ''/licenses/empty.LICENSE''\<rparr>], None)"
  by (simp add: sample_license_def License_defaults_def sample_env_def sample_files_def
        join_def Let_def Rule_post_init_def init_identifier_def init_load_def
        init_expression_def and_then_def truthy_def Rule_defaults_def)

text \<open>
  The constructor on a rule made of a license: it raises when the text file path is
  empty, and when the key is not empty and does not parse.
\<close>

lemma Rule_post_init_of_license:
  assumes "data_file r = None" and "stored_text r = None" and "text_file r = Some p"
    and "license_expression r = Some k"
  shows "(p = [] \<longrightarrow> Rule_post_init E r
            = Inl (Exception ''Invalid rule without its corresponding text file: {}'')) \<and>
         (p \<noteq> [] \<and> k \<noteq> [] \<and>
            (case licensing_parse E k of Inr (Some x) \<Rightarrow> False | _ \<Rightarrow> True) \<longrightarrow>
            Rule_post_init E r = Inl TypeError) \<and>
         (p \<noteq> [] \<and>
            (k = [] \<or> (case licensing_parse E k of Inr (Some x) \<Rightarrow> True | _ \<Rightarrow> False)) \<longrightarrow>
            (\<exists>r'. Rule_post_init E r = Inr r'))"
  using assms
  by (auto simp: Rule_post_init_def init_identifier_def init_load_def init_expression_def
        and_then_def truthy_def parse_failure_def Let_def split: sum.splits option.splits)


lemma build_rules_step:
  fixes E :: "'e env"
  defines "passes \<equiv> (\<lambda>(k :: string, l).
             case join (src_dir l) (License.text_file l) of
               Inl e \<Rightarrow> False
             | Inr p \<Rightarrow> exists E p \<longrightarrow>
                 p \<noteq> [] \<and>
                 (k = [] \<or> (case licensing_parse E k of Inr (Some x) \<Rightarrow> True | _ \<Rightarrow> False)))"
    and "raises \<equiv> (\<lambda>(k :: string, l).
             case join (src_dir l) (License.text_file l) of
               Inl e \<Rightarrow> e
             | Inr p \<Rightarrow>
                 if p = []
                 then Exception ''Invalid rule without its corresponding text file: {}''
                 else TypeError)"
  shows "build_rules_from_licenses E (item # licenses) =
     (if passes item
      then (fst (build_rules_from_licenses E [item]) @ fst (build_rules_from_licenses E licenses),
            snd (build_rules_from_licenses E licenses))
      else ([], Some (raises item)))"
proof -
  obtain k l where item: "item = (k, l)" by (cases item)
  show ?thesis
  proof (cases "join (src_dir l) (License.text_file l)")
    case (Inl e)
    then show ?thesis unfolding item passes_def raises_def by simp
  next
    case (Inr p)
    show ?thesis
    proof (cases "exists E p")
      case False
      with Inr show ?thesis unfolding item passes_def raises_def by (simp add: Let_def)
    next
      case True
      let ?r0 = "Rule_defaults
                  \<lparr>license_expression := Some k, is_license_text := True,
                   minimum_coverage := of_int (if License.minimum_coverage l \<noteq> 0
                      then License.minimum_coverage l else 0),
                   relevance := of_int (if License.relevance l \<noteq> 0
                      then License.relevance l else 100),
                   has_stored_relevance := (License.relevance l \<noteq> 100),
                   is_license := True, text_file := Some p\<rparr>"
      have r0: "data_file ?r0 = None" "stored_text ?r0 = None" "text_file ?r0 = Some p"
        "license_expression ?r0 = Some k"
        by (simp_all add: Rule_defaults_def)
      note ctor = Rule_post_init_of_license[OF r0, of E]
      have b: "build_rules_from_licenses E ((k, l) # ls) =
          (case Rule_post_init E ?r0 of
             Inl e \<Rightarrow> ([], Some e)
           | Inr rule \<Rightarrow> (rule # fst (build_rules_from_licenses E ls),
                          snd (build_rules_from_licenses E ls)))" for ls
        using Inr True by (simp add: Let_def split: prod.splits sum.splits)
      show ?thesis
      proof (cases "passes item")
        case yes: True
        with Inr True have "p \<noteq> [] \<and>
            (k = [] \<or> (case licensing_parse E k of Inr (Some x) \<Rightarrow> True | _ \<Rightarrow> False))"
          unfolding item passes_def by simp
        with ctor obtain r' where r': "Rule_post_init E ?r0 = Inr r'" by blast
        show ?thesis unfolding item b r' using yes item by simp
      next
        case no: False
        with Inr True have cases: "p = [] \<or> (p \<noteq> [] \<and> k \<noteq> [] \<and>
            (case licensing_parse E k of Inr (Some x) \<Rightarrow> False | _ \<Rightarrow> True))"
          unfolding item passes_def by (auto split: sum.splits option.splits)
        have "Rule_post_init E ?r0 = Inl (raises item)"
        proof (cases "p = []")
          case True
          with ctor Inr show ?thesis unfolding item raises_def by simp
        next
          case False
          with cases ctor Inr show ?thesis unfolding item raises_def by simp
        qed
        then show ?thesis unfolding item b using no item by simp
      qed
    qed
  qed
qed


lemma build_rules_prefix:
  fixes E :: "'e env"
  defines "passes \<equiv> (\<lambda>(k :: string, l).
             case join (src_dir l) (License.text_file l) of
               Inl e \<Rightarrow> False
             | Inr p \<Rightarrow> exists E p \<longrightarrow>
                 p \<noteq> [] \<and>
                 (k = [] \<or> (case licensing_parse E k of Inr (Some x) \<Rightarrow> True | _ \<Rightarrow> False)))"
  assumes "\<forall>i \<in> set before. passes i"
  shows "build_rules_from_licenses E (before @ rest) =
           (fst (build_rules_from_licenses E before) @ fst (build_rules_from_licenses E rest),
            snd (build_rules_from_licenses E rest)) \<and>
         snd (build_rules_from_licenses E before) = None"
  using assms(2)
proof (induction before)
  case Nil
  show ?case by simp
next
  case (Cons item before)
  note step = build_rules_step[of E item, folded passes_def]
  from Cons.prems have item: "passes item" and "\<forall>i \<in> set before. passes i" by simp_all
  from Cons.IH[OF this(2)]
  have ih: "build_rules_from_licenses E (before @ rest) =
           (fst (build_rules_from_licenses E before) @ fst (build_rules_from_licenses E rest),
            snd (build_rules_from_licenses E rest))"
    and none: "snd (build_rules_from_licenses E before) = None"
    by simp_all
  have "build_rules_from_licenses E ((item # before) @ rest) =
          (fst (build_rules_from_licenses E [item]) @
             fst (build_rules_from_licenses E (before @ rest)),
           snd (build_rules_from_licenses E (before @ rest)))"
    using step[of "before @ rest"] item by simp
  moreover have "build_rules_from_licenses E (item # before) =
          (fst (build_rules_from_licenses E [item]) @ fst (build_rules_from_licenses E before),
           snd (build_rules_from_licenses E before))"
    using step[of before] item by simp
  ultimately show ?case by (simp add: ih none)
qed

text \<open>
  Claim C8, as amended. A license passes when its text file path can be joined to
  \<^verbatim>\<open>src_dir\<close> (both are set, or the text file path is absolute) and, if that path
  exists, it is not empty and the key of the license is empty or parses. When every
  license passes, \<^verbatim>\<open>build_rules_from_licenses\<close> raises nothing and yields, in the order
  of the licenses, exactly one rule for each license whose joined text file path
  exists, be the file empty or not. At the first license that does not pass, the
  generator ends with an exception (AttributeError from \<^verbatim>\<open>join\<close>, or the exception of
  the constructor) after it has yielded exactly the rules of the licenses before it.
  Each rule has the joined path as its text file, \<^verbatim>\<open>is_license\<close> and
  \<^verbatim>\<open>is_license_text\<close> set, the \<^verbatim>\<open>minimum_coverage\<close> of its license, and the
  \<^verbatim>\<open>relevance\<close> of its license, but 100 when that is 0.
\<close>

theorem build_rules_from_licenses_yields:
  fixes E :: "'e env"
  defines "yielded \<equiv> (\<lambda>(k :: string, l). case join (src_dir l) (License.text_file l) of
                              Inr p \<Rightarrow> exists E p | Inl e \<Rightarrow> False)"
    and "built \<equiv> (\<lambda>(r :: 'e Rule) (k :: string, l).
             text_file r = (case join (src_dir l) (License.text_file l) of
                              Inr p \<Rightarrow> Some p | Inl e \<Rightarrow> None) \<and>
             minimum_coverage r = of_int (License.minimum_coverage l) \<and>
             relevance r = of_int (if License.relevance l = 0 then 100 else License.relevance l) \<and>
             is_license r \<and> is_license_text r)"
    and "passes \<equiv> (\<lambda>(k :: string, l).
             case join (src_dir l) (License.text_file l) of
               Inl e \<Rightarrow> False
             | Inr p \<Rightarrow> exists E p \<longrightarrow>
                 p \<noteq> [] \<and>
                 (k = [] \<or> (case licensing_parse E k of Inr (Some x) \<Rightarrow> True | _ \<Rightarrow> False)))"
    and "raises \<equiv> (\<lambda>(k :: string, l).
             case join (src_dir l) (License.text_file l) of
               Inl e \<Rightarrow> e
             | Inr p \<Rightarrow>
                 if p = []
                 then Exception ''Invalid rule without its corresponding text file: {}''
                 else TypeError)"
  shows "((\<forall>i \<in> set licenses. passes i) \<longrightarrow>
            snd (build_rules_from_licenses E licenses) = None \<and>
            list_all2 built (fst (build_rules_from_licenses E licenses))
              (filter yielded licenses)) \<and>
         (\<forall>before item after.
            licenses = before @ item # after \<and> (\<forall>i \<in> set before. passes i) \<and> \<not> passes item \<longrightarrow>
            snd (build_rules_from_licenses E licenses) = Some (raises item) \<and>
            list_all2 built (fst (build_rules_from_licenses E licenses))
              (filter yielded before))"
proof -
  have all: "snd (build_rules_from_licenses E ls) = None \<and>
        list_all2 built (fst (build_rules_from_licenses E ls)) (filter yielded ls)"
    if "\<forall>i \<in> set ls. passes i" for ls
  proof -
    from build_rules_prefix[of ls E "[]", folded passes_def, OF that]
    have none: "snd (build_rules_from_licenses E ls) = None" by simp
    from build_rules_yielded[of E ls, folded yielded_def built_def] obtain n where
      "list_all2 built (fst (build_rules_from_licenses E ls)) (take n (filter yielded ls))"
      and "snd (build_rules_from_licenses E ls) = None \<longrightarrow> length (filter yielded ls) \<le> n"
      by (elim exE conjE)
    with none show ?thesis by simp
  qed
  show ?thesis
  proof (intro conjI allI impI)
    assume "\<forall>i \<in> set licenses. passes i"
    then show "snd (build_rules_from_licenses E licenses) = None"
      and "list_all2 built (fst (build_rules_from_licenses E licenses)) (filter yielded licenses)"
      using all by simp_all
  next
    fix before item after
    assume a: "licenses = before @ item # after \<and> (\<forall>i \<in> set before. passes i) \<and> \<not> passes item"
    then have split: "licenses = before @ item # after" and before: "\<forall>i \<in> set before. passes i"
      and item: "\<not> passes item"
      by simp_all
    from build_rules_prefix[of before E "item # after", folded passes_def, OF before]
    have pre: "build_rules_from_licenses E licenses =
           (fst (build_rules_from_licenses E before) @
              fst (build_rules_from_licenses E (item # after)),
            snd (build_rules_from_licenses E (item # after)))"
      unfolding split by simp
    from build_rules_step[of E item after, folded passes_def raises_def] item
    have "build_rules_from_licenses E (item # after) = ([], Some (raises item))" by simp
    with pre have res: "build_rules_from_licenses E licenses =
        (fst (build_rules_from_licenses E before), Some (raises item))"
      by simp
    from res show "snd (build_rules_from_licenses E licenses) = Some (raises item)" by simp
    from res all[OF before]
    show "list_all2 built (fst (build_rules_from_licenses E licenses)) (filter yielded before)"
      by simp
  qed
qed

text \<open>
  On the small corpus every license passes; with a license \<^verbatim>\<open>gpl\<close> that has no text
  file path in second place, the rule of \<^verbatim>\<open>mit\<close> is yielded and AttributeError raised.
\<close>

theorem build_rules_from_licenses_yields_witness:
  "snd (build_rules_from_licenses sample_env
     [(''mit'', (sample_license ''mit'')\<lparr>License.relevance := 0\<rparr>),
      (''bsd'', sample_license ''bsd''),
      (''empty'', sample_license ''empty'')]) = None \<and>
   list_all2
     (\<lambda>r (k, l).
        text_file r = (case join (src_dir l) (License.text_file l) of
                         Inr p \<Rightarrow> Some p | Inl e \<Rightarrow> None) \<and>
        minimum_coverage r = of_int (License.minimum_coverage l) \<and>
        relevance r = of_int (if License.relevance l = 0 then 100 else License.relevance l) \<and>
        is_license r \<and> is_license_text r)
     (fst (build_rules_from_licenses sample_env
        [(''mit'', (sample_license ''mit'')\<lparr>License.relevance := 0\<rparr>),
      (''bsd'', sample_license ''bsd''),
      (''empty'', sample_license ''empty'')]))
     [(''mit'', (sample_license ''mit'')\<lparr>License.relevance := 0\<rparr>),
      (''empty'', sample_license ''empty'')] \<and>
   snd (build_rules_from_licenses sample_env
     [(''mit'', sample_license ''mit''),
      (''gpl'', (sample_license ''gpl'')\<lparr>License.text_file := None\<rparr>),
      (''empty'', sample_license ''empty'')]) = Some AttributeError \<and>
   list_all2
     (\<lambda>r (k, l).
        text_file r = (case join (src_dir l) (License.text_file l) of
                         Inr p \<Rightarrow> Some p | Inl e \<Rightarrow> None) \<and>
        minimum_coverage r = of_int (License.minimum_coverage l) \<and>
        relevance r = of_int (if License.relevance l = 0 then 100 else License.relevance l) \<and>
        is_license r \<and> is_license_text r)
     (fst (build_rules_from_licenses sample_env
        [(''mit'', sample_license ''mit''),
      (''gpl'', (sample_license ''gpl'')\<lparr>License.text_file := None\<rparr>),
      (''empty'', sample_license ''empty'')]))
     [(''mit'', sample_license ''mit'')]"
proof -
  have paths: "join (src_dir (sample_license k)) (License.text_file (sample_license k))
                 = Inr (''/licenses/'' @ k @ ''.LICENSE'')"
    "join a None = Inl AttributeError" for k a
    by (simp_all add: sample_license_def License_defaults_def join_def)
  have parses: "licensing_parse sample_env k = Inr (Some [k])" for k
    by (simp add: sample_env_def)
  have files: "exists sample_env ''/licenses/mit.LICENSE''"
    "\<not> exists sample_env ''/licenses/bsd.LICENSE''"
    "exists sample_env ''/licenses/empty.LICENSE''"
    by (simp_all add: sample_env_def sample_files_def)
  note thm1 = build_rules_from_licenses_yields
      [where E = sample_env and licenses = "[(''mit'', (sample_license ''mit'')\<lparr>License.relevance := 0\<rparr>),
      (''bsd'', sample_license ''bsd''),
      (''empty'', sample_license ''empty'')]"]
  note thm2 = build_rules_from_licenses_yields
      [where E = sample_env and licenses = "[(''mit'', sample_license ''mit''),
      (''gpl'', (sample_license ''gpl'')\<lparr>License.text_file := None\<rparr>),
      (''empty'', sample_license ''empty'')]"]
  from conjunct1[OF thm1]
  have first: "snd (build_rules_from_licenses sample_env
     [(''mit'', (sample_license ''mit'')\<lparr>License.relevance := 0\<rparr>),
      (''bsd'', sample_license ''bsd''),
      (''empty'', sample_license ''empty'')]) = None \<and>
   list_all2
     (\<lambda>r (k, l).
        text_file r = (case join (src_dir l) (License.text_file l) of
                         Inr p \<Rightarrow> Some p | Inl e \<Rightarrow> None) \<and>
        minimum_coverage r = of_int (License.minimum_coverage l) \<and>
        relevance r = of_int (if License.relevance l = 0 then 100 else License.relevance l) \<and>
        is_license r \<and> is_license_text r)
     (fst (build_rules_from_licenses sample_env
        [(''mit'', (sample_license ''mit'')\<lparr>License.relevance := 0\<rparr>),
      (''bsd'', sample_license ''bsd''),
      (''empty'', sample_license ''empty'')]))
     [(''mit'', (sample_license ''mit'')\<lparr>License.relevance := 0\<rparr>),
      (''empty'', sample_license ''empty'')]"
    by (simp add: paths parses files del: build_rules_from_licenses.simps)
  from conjunct2[OF thm2, THEN spec, THEN spec, THEN spec,
         of "[(''mit'', sample_license ''mit'')]"
            "(''gpl'', (sample_license ''gpl'')\<lparr>License.text_file := None\<rparr>)"
            "[(''empty'', sample_license ''empty'')]"]
  have second: "snd (build_rules_from_licenses sample_env
     [(''mit'', sample_license ''mit''),
      (''gpl'', (sample_license ''gpl'')\<lparr>License.text_file := None\<rparr>),
      (''empty'', sample_license ''empty'')]) = Some AttributeError \<and>
   list_all2
     (\<lambda>r (k, l).
        text_file r = (case join (src_dir l) (License.text_file l) of
                         Inr p \<Rightarrow> Some p | Inl e \<Rightarrow> None) \<and>
        minimum_coverage r = of_int (License.minimum_coverage l) \<and>
        relevance r = of_int (if License.relevance l = 0 then 100 else License.relevance l) \<and>
        is_license r \<and> is_license_text r)
     (fst (build_rules_from_licenses sample_env
        [(''mit'', sample_license ''mit''),
      (''gpl'', (sample_license ''gpl'')\<lparr>License.text_file := None\<rparr>),
      (''empty'', sample_license ''empty'')]))
     [(''mit'', sample_license ''mit'')]"
    by (simp add: paths parses files del: build_rules_from_licenses.simps)
  from first second show ?thesis by (simp only: simp_thms)
qed

text \<open>
  The claim as stated fails on the small corpus: the license \<^verbatim>\<open>mit\<close> with relevance
  0 gives a rule of relevance 100, and the license \<^verbatim>\<open>empty\<close>, whose text file exists
  and is empty, gives a rule as well.
\<close>

theorem build_rules_from_licenses_counterexample:
  "map relevance (fst (build_rules_from_licenses sample_env
     [(''mit'', (sample_license ''mit'')\<lparr>License.relevance := 0\<rparr>),
      (''bsd'', sample_license ''bsd''),
      (''empty'', sample_license ''empty'')])) = [100, 100] \<and>
   map text_file (fst (build_rules_from_licenses sample_env
     [(''mit'', (sample_license ''mit'')\<lparr>License.relevance := 0\<rparr>),
      (''bsd'', sample_license ''bsd''),
      (''empty'', sample_license ''empty'')]))
     = [Some ''/licenses/mit.LICENSE'', Some ''/licenses/empty.LICENSE''] \<and>
   License.relevance ((sample_license ''mit'')\<lparr>License.relevance := 0\<rparr>) = 0 \<and>
   io_read sample_env ''/licenses/empty.LICENSE'' = Inr []"
proof -
  have empty: "io_read sample_env ''/licenses/empty.LICENSE'' = Inr []"
    by (simp add: sample_env_def sample_files_def)
  show ?thesis
    unfolding sample_build by (simp add: Rule_defaults_def empty)
qed

subsection \<open>Integrity of the rules\<close>

lemma set_set_add: "set (set_add v s) = insert v (set s)"
  by (auto simp: set_add_def)

lemma set_set_update: "set (set_update vs s) = set s \<union> set vs"
  unfolding set_update_def
  by (induction vs arbitrary: s) (auto simp: set_set_add)

lemma map_of_dd_set_update:
  "map_of (dd_set_update k vs d) k' =
     (if k' = k then Some (set_update vs (case map_of d k of None \<Rightarrow> [] | Some s \<Rightarrow> s))
      else map_of d k')"
  by (induction d) auto

lemma keys_dd_set_update:
  "map fst (dd_set_update k vs d) =
     (if k \<in> set (map fst d) then map fst d else map fst d @ [k])"
  by (induction d) (fastforce simp: image_iff)+

lemma distinct_dd_set_update:
  "distinct (map fst d) \<Longrightarrow> distinct (map fst (dd_set_update k vs d))"
  by (simp add: keys_dd_set_update)

lemma sublist_str_join: "x \<in> set xs \<Longrightarrow> sublist x (str_join sep xs)"
proof (induction sep xs rule: str_join.induct)
  case (1 sep)
  then show ?case by simp
next
  case (2 sep y)
  then show ?case by simp
next
  case (3 sep y z zs)
  show ?case
  proof (cases "x = y")
    case True
    then show ?thesis by (simp add: prefix_imp_sublist)
  next
    case False
    with 3 have "sublist x (str_join sep (z # zs))" by simp
    then show ?thesis
      by (metis append.assoc str_join.simps(3) sublist_append_leftI sublist_order.order.trans)
  qed
qed

lemma those_map_Some:
  "(\<forall>x \<in> set xs. f x \<noteq> None) \<Longrightarrow> those (map f xs) = Some (map (\<lambda>x. the (f x)) xs)"
  by (induction xs) auto

lemma those_map_None:
  "x \<in> set xs \<Longrightarrow> f x = None \<Longrightarrow> those (map f xs) = None"
  by (induction xs) (auto split: option.splits)


lemma fold_check_rule:
  "fold (check_rule E L) rules (ir, fl) =
     (fold (\<lambda>r ir. if unknown_keys E L r \<noteq> []
                     then dd_set_update (data_file r) (unknown_keys E L r) ir else ir)
        rules ir,
      fold (\<lambda>r fl. if \<not> has_importance_flags r \<and> \<not> (is_negative r \<or> is_false_positive r)
                   then set_add (data_file r) fl else fl)
        rules fl)"
  by (induction rules arbitrary: ir fl) (simp_all add: check_rule_def Let_def)

lemma keys_set_dd_set_update:
  "fst ` set (dd_set_update k vs d) = insert k (fst ` set d)"
proof -
  have "fst ` set (dd_set_update k vs d) = set (map fst (dd_set_update k vs d))"
    by simp
  also have "\<dots> = set (if k \<in> set (map fst d) then map fst d else map fst d @ [k])"
    by (simp only: keys_dd_set_update)
  also have "\<dots> = insert k (fst ` set d)"
    by auto
  finally show ?thesis .
qed

lemma invalid_rules_keys:
  "fst ` set (fold (\<lambda>r ir. if unknown_keys E L r \<noteq> []
                     then dd_set_update (data_file r) (unknown_keys E L r) ir else ir)
        rules ir)
   = fst ` set ir \<union> data_file ` {r \<in> set rules. unknown_keys E L r \<noteq> []}"
proof (induction rules arbitrary: ir)
  case Nil
  show ?case by simp
next
  case (Cons r rules)
  let ?step = "if unknown_keys E L r \<noteq> []
               then dd_set_update (data_file r) (unknown_keys E L r) ir else ir"
  have step: "fst ` set ?step
      = fst ` set ir \<union> (if unknown_keys E L r \<noteq> [] then {data_file r} else {})"
    by (simp add: keys_set_dd_set_update)
  have split: "data_file ` {r' \<in> set (r # rules). unknown_keys E L r' \<noteq> []}
      = (if unknown_keys E L r \<noteq> [] then {data_file r} else {}) \<union>
        data_file ` {r' \<in> set rules. unknown_keys E L r' \<noteq> []}"
    by auto
  have "fst ` set (fold (\<lambda>r ir. if unknown_keys E L r \<noteq> []
                     then dd_set_update (data_file r) (unknown_keys E L r) ir else ir)
        (r # rules) ir)
      = fst ` set ?step \<union> data_file ` {r \<in> set rules. unknown_keys E L r \<noteq> []}"
    using Cons.IH[of ?step] by simp
  then show ?case unfolding split step by (simp only: Un_assoc)
qed

lemma invalid_rules_distinct:
  "distinct (map fst ir) \<Longrightarrow>
   distinct (map fst (fold (\<lambda>r ir. if unknown_keys E L r \<noteq> []
                     then dd_set_update (data_file r) (unknown_keys E L r) ir else ir)
        rules ir))"
  by (induction rules arbitrary: ir) (simp_all add: distinct_dd_set_update del: distinct_map)

lemma invalid_rules_bucket:
  "(case map_of (fold (\<lambda>r ir. if unknown_keys E L r \<noteq> []
                     then dd_set_update (data_file r) (unknown_keys E L r) ir else ir)
        rules ir) d of None \<Rightarrow> {} | Some ks \<Rightarrow> set ks)
   = (case map_of ir d of None \<Rightarrow> {} | Some ks \<Rightarrow> set ks) \<union>
     (\<Union>r \<in> {r \<in> set rules. data_file r = d}. set (unknown_keys E L r))"
proof (induction rules arbitrary: ir)
  case Nil
  show ?case by simp
next
  case (Cons r rules)
  let ?step = "if unknown_keys E L r \<noteq> []
               then dd_set_update (data_file r) (unknown_keys E L r) ir else ir"
  have step: "(case map_of ?step d of None \<Rightarrow> {} | Some ks \<Rightarrow> set ks)
      = (case map_of ir d of None \<Rightarrow> {} | Some ks \<Rightarrow> set ks) \<union>
        (if data_file r = d then set (unknown_keys E L r) else {})"
    by (auto simp: map_of_dd_set_update set_set_update split: option.splits)
  have "{r' \<in> set (r # rules). data_file r' = d}
      = (if data_file r = d then {r} else {}) \<union> {r' \<in> set rules. data_file r' = d}"
    by auto
  then have un: "(\<Union>r' \<in> {r' \<in> set (r # rules). data_file r' = d}. set (unknown_keys E L r'))
      = (if data_file r = d then set (unknown_keys E L r) else {}) \<union>
        (\<Union>r' \<in> {r' \<in> set rules. data_file r' = d}. set (unknown_keys E L r'))"
    by auto
  show ?case
    unfolding un using Cons.IH[of ?step] step by (simp add: Un_assoc)
qed

lemma rules_without_flags_set:
  "set (fold (\<lambda>r fl. if \<not> has_importance_flags r \<and> \<not> (is_negative r \<or> is_false_positive r)
                   then set_add (data_file r) fl else fl)
        rules fl)
   = set fl \<union> data_file ` {r \<in> set rules. \<not> has_importance_flags r \<and>
                                \<not> (is_negative r \<or> is_false_positive r)}"
  by (induction rules arbitrary: fl) (auto simp: set_set_add)

lemma check_rules_integrity_cases:
  assumes "ir = fold (\<lambda>r ir. if unknown_keys E L r \<noteq> []
                     then dd_set_update (data_file r) (unknown_keys E L r) ir else ir) rules []"
    and "fl = fold (\<lambda>r fl. if \<not> has_importance_flags r
                             \<and> \<not> (is_negative r \<or> is_false_positive r)
                          then set_add (data_file r) fl else fl) rules []"
  shows "check_rules_integrity E rules L =
     (if ir \<noteq> [] then
           (case those (map missing_license_lines
                          (filter (\<lambda>(df, keys). keys \<noteq> []) ir)) of
              None \<Rightarrow> Inl TypeError
            | Some lines \<Rightarrow>
                Inl (MissingLicenses
                  (''Rules referencing missing licenses:\<newline>''
                     @ str_join ''\<newline>'' (sort lines))))
         else if fl \<noteq> [] then
           (case those (map missing_flags_lines (sort fl)) of
              None \<Rightarrow> Inl TypeError
            | Some lines \<Rightarrow>
                Inl (MissingFlags
                  (''Rules without is_license_xxx flags:\<newline>''
                     @ str_join ''\<newline>'' (sort lines))))
         else Inr ())"
  unfolding assms by (simp add: check_rules_integrity_def fold_check_rule Let_def)

lemma check_rules_integrity_missing:
  assumes ir: "ir = fold (\<lambda>r ir. if unknown_keys E L r \<noteq> []
                     then dd_set_update (data_file r) (unknown_keys E L r) ir else ir) rules []"
    and nonempty: "ir \<noteq> []"
    and those_eq: "those (map missing_license_lines
                          (filter (\<lambda>(df, keys). keys \<noteq> []) ir)) = Some lines"
  shows "check_rules_integrity E rules L = Inl (MissingLicenses
           (''Rules referencing missing licenses:\<newline>''
              @ str_join ''\<newline>'' (sort lines)))"
  apply (subst check_rules_integrity_cases[OF ir refl])
  apply (simp only: nonempty not_False_eq_True if_True those_eq option.case)
  done


lemma distinct_set_add: "distinct s \<Longrightarrow> distinct (set_add v s)"
  by (simp add: set_add_def)

lemma distinct_set_update: "distinct s \<Longrightarrow> distinct (set_update vs s)"
  unfolding set_update_def
  by (induction vs arbitrary: s) (simp_all add: distinct_set_add)

lemma distinct_buckets_dd_set_update:
  "\<forall>b \<in> set d. distinct (snd b) \<Longrightarrow> \<forall>b \<in> set (dd_set_update k vs d). distinct (snd b)"
  by (induction d) (fastforce simp: distinct_set_update split: if_splits)+

lemma invalid_rules_distinct_buckets:
  "\<forall>b \<in> set ir. distinct (snd b) \<Longrightarrow>
   \<forall>b \<in> set (fold (\<lambda>r ir. if unknown_keys E L r \<noteq> []
                     then dd_set_update (data_file r) (unknown_keys E L r) ir else ir)
        rules ir). distinct (snd b)"
proof (induction rules arbitrary: ir)
  case Nil
  then show ?case by simp
next
  case (Cons r rules)
  let ?step = "if unknown_keys E L r \<noteq> []
               then dd_set_update (data_file r) (unknown_keys E L r) ir else ir"
  from Cons.prems have "\<forall>b \<in> set ?step. distinct (snd b)"
    using distinct_buckets_dd_set_update[of ir "data_file r" "unknown_keys E L r"]
    by (cases "unknown_keys E L r = []") simp_all
  then have "\<forall>b \<in> set (fold (\<lambda>r ir. if unknown_keys E L r \<noteq> []
                     then dd_set_update (data_file r) (unknown_keys E L r) ir else ir)
        rules ?step). distinct (snd b)"
    by (rule Cons.IH)
  then show ?case by simp
qed

lemma missing_licenses_raised:
  assumes offending: "\<exists>r \<in> set rules. unknown_keys E L r \<noteq> []"
    and files: "\<forall>r \<in> set rules. unknown_keys E L r \<noteq> [] \<longrightarrow> data_file r \<noteq> None"
  shows "\<exists>msg. check_rules_integrity E rules L = Inl (MissingLicenses msg) \<and>
           (\<forall>r \<in> set rules. unknown_keys E L r \<noteq> [] \<longrightarrow>
              (\<exists>ks. distinct ks \<and> set ks = (\<Union>r' \<in> {r' \<in> set rules. data_file r' = data_file r}.
                                  set (unknown_keys E L r')) \<and>
                    sublist (str_join '' '' ks @ ''\<newline>file://'' @ the (data_file r)
                               @ ''\<newline>'') msg))"
proof -
  define ir where "ir = fold (\<lambda>r ir. if unknown_keys E L r \<noteq> []
                     then dd_set_update (data_file r) (unknown_keys E L r) ir else ir) rules []"
  define lines where
    "lines = map (\<lambda>x. the (missing_license_lines x)) (filter (\<lambda>(df, keys). keys \<noteq> []) ir)"
  define msg where
    "msg = ''Rules referencing missing licenses:\<newline>'' @ str_join ''\<newline>'' (sort lines)"
  have keys: "fst ` set ir = data_file ` {r \<in> set rules. unknown_keys E L r \<noteq> []}"
    unfolding ir_def by (simp add: invalid_rules_keys)
  have dist: "distinct (map fst ir)"
    unfolding ir_def by (rule invalid_rules_distinct) simp
  have buckets: "\<forall>b \<in> set ir. distinct (snd b)"
    unfolding ir_def by (rule invalid_rules_distinct_buckets) simp
  have bucket: "(case map_of ir d of None \<Rightarrow> {} | Some ks \<Rightarrow> set ks)
      = (\<Union>r \<in> {r \<in> set rules. data_file r = d}. set (unknown_keys E L r))" for d
    unfolding ir_def by (simp add: invalid_rules_bucket)
  from offending keys have nonempty: "ir \<noteq> []" by auto
  have some: "missing_license_lines item \<noteq> None" if "item \<in> set ir" for item
  proof -
    from that have "fst item \<in> fst ` set ir" by (rule imageI)
    with keys files have "fst item \<noteq> None" by auto
    then show ?thesis
      by (cases item) (auto simp: missing_license_lines_def)
  qed
  then have those_eq:
    "those (map missing_license_lines (filter (\<lambda>(df, keys). keys \<noteq> []) ir)) = Some lines"
    unfolding lines_def by (intro those_map_Some) simp
  have result: "check_rules_integrity E rules L = Inl (MissingLicenses msg)"
    unfolding msg_def by (rule check_rules_integrity_missing[OF ir_def nonempty those_eq])
  have named: "\<exists>ks. distinct ks \<and> set ks = (\<Union>r' \<in> {r' \<in> set rules. data_file r' = data_file r}.
                                  set (unknown_keys E L r')) \<and>
                    sublist (str_join '' '' ks @ ''\<newline>file://'' @ the (data_file r)
                               @ ''\<newline>'') msg"
    if r: "r \<in> set rules" and u: "unknown_keys E L r \<noteq> []" for r
  proof -
    from files r u obtain d where d: "data_file r = Some d" by auto
    from r u keys have "data_file r \<in> fst ` set ir" by auto
    then obtain ks where ks: "(Some d, ks) \<in> set ir" unfolding d by auto
    from buckets ks have "distinct (snd (Some d, ks))" by (rule bspec)
    then have dks: "distinct ks" by simp
    from ks dist have "map_of ir (Some d) = Some ks" by simp
    with bucket[of "Some d"] have set_ks:
      "set ks = (\<Union>r' \<in> {r' \<in> set rules. data_file r' = Some d}. set (unknown_keys E L r'))"
      by simp
    from r u d have "set (unknown_keys E L r) \<subseteq> set ks" unfolding set_ks by auto
    with u have "ks \<noteq> []" by auto
    with ks have "the (missing_license_lines (Some d, ks)) \<in> set lines"
      unfolding lines_def by force
    then have "the (missing_license_lines (Some d, ks)) \<in> set (sort lines)" by simp
    then have "sublist (the (missing_license_lines (Some d, ks))) (str_join ''\<newline>'' (sort lines))"
      by (rule sublist_str_join)
    then have "sublist (the (missing_license_lines (Some d, ks))) msg"
      unfolding msg_def by (rule sublist_order.order.trans[OF _ sublist_append_leftI])
    moreover have "sublist (str_join '' '' ks @ ''\<newline>file://'' @ d @ ''\<newline>'')
        (the (missing_license_lines (Some d, ks)))"
    proof -
      have "the (missing_license_lines (Some d, ks))
          = (str_join '' '' ks @ ''\<newline>file://'' @ d @ ''\<newline>'')
            @ (''file://'' @ str_replace ''.yml'' ''.RULE'' d @ ''\<newline>'')"
        by (simp add: missing_license_lines_def del: str_replace.simps)
      then show ?thesis by (simp only: sublist_append_rightI)
    qed
    ultimately have "sublist (str_join '' '' ks @ ''\<newline>file://'' @ d @ ''\<newline>'') msg"
      by (rule sublist_order.order.trans[rotated])
    then have sub: "sublist (str_join '' '' ks @ ''\<newline>file://'' @ the (data_file r)
                               @ ''\<newline>'') msg"
      by (simp only: d option.sel)
    from set_ks have "set ks = (\<Union>r' \<in> {r' \<in> set rules. data_file r' = data_file r}.
                                  set (unknown_keys E L r'))"
      by (simp only: d)
    with dks sub show ?thesis by (intro exI[of _ ks] conjI)
  qed
  show ?thesis
  proof (intro exI[of _ msg] conjI ballI impI)
    show "check_rules_integrity E rules L = Inl (MissingLicenses msg)" by (rule result)
  next
    fix r assume "r \<in> set rules" "unknown_keys E L r \<noteq> []"
    then show "\<exists>ks. distinct ks \<and> set ks = (\<Union>r' \<in> {r' \<in> set rules. data_file r' = data_file r}.
                                  set (unknown_keys E L r')) \<and>
                    sublist (str_join '' '' ks @ ''\<newline>file://'' @ the (data_file r)
                               @ ''\<newline>'') msg"
      by (rule named)
  qed
qed


lemma check_rules_integrity_flags:
  assumes ir: "[] = fold (\<lambda>r ir. if unknown_keys E L r \<noteq> []
                     then dd_set_update (data_file r) (unknown_keys E L r) ir else ir) rules []"
    and fl: "fl = fold (\<lambda>r fl. if \<not> has_importance_flags r
                             \<and> \<not> (is_negative r \<or> is_false_positive r)
                          then set_add (data_file r) fl else fl) rules []"
    and nonempty: "fl \<noteq> []"
    and those_eq: "those (map missing_flags_lines (sort fl)) = Some lines"
  shows "check_rules_integrity E rules L = Inl (MissingFlags
           (''Rules without is_license_xxx flags:\<newline>''
              @ str_join ''\<newline>'' (sort lines)))"
  apply (subst check_rules_integrity_cases[OF ir fl])
  apply (simp only: nonempty not_False_eq_True if_True if_False those_eq option.case
           simp_thms)
  done

lemma check_rules_integrity_none:
  assumes ir: "[] = fold (\<lambda>r ir. if unknown_keys E L r \<noteq> []
                     then dd_set_update (data_file r) (unknown_keys E L r) ir else ir) rules []"
    and fl: "[] = fold (\<lambda>r fl. if \<not> has_importance_flags r
                             \<and> \<not> (is_negative r \<or> is_false_positive r)
                          then set_add (data_file r) fl else fl) rules []"
  shows "check_rules_integrity E rules L = Inr ()"
  apply (subst check_rules_integrity_cases[OF ir fl])
  apply (simp only: if_False simp_thms)
  done

lemma no_invalid_rules:
  assumes "\<forall>r \<in> set rules. unknown_keys E L r = []"
  shows "[] = fold (\<lambda>r ir. if unknown_keys E L r \<noteq> []
                     then dd_set_update (data_file r) (unknown_keys E L r) ir else ir) rules []"
proof -
  have "fst ` set (fold (\<lambda>r ir. if unknown_keys E L r \<noteq> []
                     then dd_set_update (data_file r) (unknown_keys E L r) ir else ir) rules [])
        = data_file ` {r \<in> set rules. unknown_keys E L r \<noteq> []}"
    by (simp add: invalid_rules_keys)
  also from assms have "\<dots> = {}" by simp
  finally show ?thesis by simp
qed

lemma missing_flags_raised:
  assumes none: "\<forall>r \<in> set rules. unknown_keys E L r = []"
    and flagless: "\<exists>r \<in> set rules. \<not> has_importance_flags r
                      \<and> \<not> (is_negative r \<or> is_false_positive r)"
    and files: "\<forall>r \<in> set rules. \<not> has_importance_flags r
                      \<and> \<not> (is_negative r \<or> is_false_positive r) \<longrightarrow> data_file r \<noteq> None"
  shows "\<exists>msg. check_rules_integrity E rules L = Inl (MissingFlags msg) \<and>
           (\<forall>r \<in> set rules. \<not> has_importance_flags r
                      \<and> \<not> (is_negative r \<or> is_false_positive r) \<longrightarrow>
              sublist (''file://'' @ the (data_file r) @ ''\<newline>'') msg)"
proof -
  define fl where "fl = fold (\<lambda>r fl. if \<not> has_importance_flags r
                             \<and> \<not> (is_negative r \<or> is_false_positive r)
                          then set_add (data_file r) fl else fl) rules []"
  define lines where "lines = map (\<lambda>x. the (missing_flags_lines x)) (sort fl)"
  define msg where
    "msg = ''Rules without is_license_xxx flags:\<newline>'' @ str_join ''\<newline>'' (sort lines)"
  have fl_set: "set fl = data_file ` {r \<in> set rules. \<not> has_importance_flags r
                                \<and> \<not> (is_negative r \<or> is_false_positive r)}"
    unfolding fl_def by (simp only: rules_without_flags_set list.set Un_empty_left)
  from flagless have "data_file ` {r \<in> set rules. \<not> has_importance_flags r
                                \<and> \<not> (is_negative r \<or> is_false_positive r)} \<noteq> {}"
    by blast
  with fl_set have nonempty: "fl \<noteq> []" by auto
  have some: "missing_flags_lines item \<noteq> None" if "item \<in> set (sort fl)" for item
  proof -
    from that have "item \<in> set fl" by simp
    with fl_set files have "item \<noteq> None" by auto
    then show ?thesis by (cases item) (simp_all add: missing_flags_lines_def)
  qed
  then have those_eq: "those (map missing_flags_lines (sort fl)) = Some lines"
    unfolding lines_def by (intro those_map_Some) simp
  have result: "check_rules_integrity E rules L = Inl (MissingFlags msg)"
    unfolding msg_def
    by (rule check_rules_integrity_flags[OF no_invalid_rules[OF none] fl_def nonempty those_eq])
  have named: "sublist (''file://'' @ the (data_file r) @ ''\<newline>'') msg"
    if r: "r \<in> set rules"
      and f: "\<not> has_importance_flags r \<and> \<not> (is_negative r \<or> is_false_positive r)" for r
  proof -
    from files r f obtain d where d: "data_file r = Some d" by auto
    from r f have "data_file r \<in> set fl" unfolding fl_set by blast
    then have "Some d \<in> set (sort fl)" by (simp add: d)
    then have "the (missing_flags_lines (Some d)) \<in> set lines"
      unfolding lines_def by (simp only: set_map) (rule imageI)
    then have "the (missing_flags_lines (Some d)) \<in> set (sort lines)" by simp
    then have "sublist (the (missing_flags_lines (Some d))) (str_join ''\<newline>'' (sort lines))"
      by (rule sublist_str_join)
    then have in_msg: "sublist (the (missing_flags_lines (Some d))) msg"
      unfolding msg_def by (rule sublist_order.order.trans[OF _ sublist_append_leftI])
    have "the (missing_flags_lines (Some d))
          = (''file://'' @ d @ ''\<newline>'')
            @ (''file://'' @ str_replace ''.yml'' ''.RULE'' d @ ''\<newline>'')"
      by (simp add: missing_flags_lines_def del: str_replace.simps)
    then have "sublist (''file://'' @ d @ ''\<newline>'') (the (missing_flags_lines (Some d)))"
      by (simp only: sublist_append_rightI)
    from this in_msg have "sublist (''file://'' @ d @ ''\<newline>'') msg"
      by (rule sublist_order.order.trans)
    then show ?thesis by (simp only: d option.sel)
  qed
  show ?thesis
  proof (intro exI[of _ msg] conjI ballI impI)
    show "check_rules_integrity E rules L = Inl (MissingFlags msg)" by (rule result)
  next
    fix r assume "r \<in> set rules"
      "\<not> has_importance_flags r \<and> \<not> (is_negative r \<or> is_false_positive r)"
    then show "sublist (''file://'' @ the (data_file r) @ ''\<newline>'') msg" by (rule named)
  qed
qed

lemma all_flags_pass:
  assumes none: "\<forall>r \<in> set rules. unknown_keys E L r = []"
    and flags: "\<forall>r \<in> set rules. has_importance_flags r \<or> is_negative r \<or> is_false_positive r"
  shows "check_rules_integrity E rules L = Inr ()"
proof -
  have "set (fold (\<lambda>r fl. if \<not> has_importance_flags r
                             \<and> \<not> (is_negative r \<or> is_false_positive r)
                          then set_add (data_file r) fl else fl) rules [])
        = data_file ` {r \<in> set rules. \<not> has_importance_flags r
                                \<and> \<not> (is_negative r \<or> is_false_positive r)}"
    by (simp only: rules_without_flags_set list.set Un_empty_left)
  also from flags have "\<dots> = {}" by blast
  finally have "[] = fold (\<lambda>r fl. if \<not> has_importance_flags r
                             \<and> \<not> (is_negative r \<or> is_false_positive r)
                          then set_add (data_file r) fl else fl) rules []"
    by simp
  with no_invalid_rules[OF none] show ?thesis by (rule check_rules_integrity_none)
qed

text \<open>
  The examples: the rule of the data file \<^verbatim>\<open>/rules/coverage.yml\<close>, whose license key
  is \<^verbatim>\<open>mit\<close>, and the rule built from the license \<^verbatim>\<open>mit\<close>, which has no data file.
\<close>

lemma sample_rule_is_constructed:
  "Rule_post_init sample_env
     (Rule_defaults\<lparr>data_file := Some ''/rules/coverage.yml'',
                    text_file := Some ''/rules/coverage.RULE''\<rparr>) = Inr sample_rule"
  by (simp add: Rule_post_init_def init_identifier_def init_load_def init_expression_def
     Rule_load_def sample_env_def sample_files_def and_then_def known_attributes_def
     load_expression_def load_relevance_def load_minimum_coverage_def load_flags_def
     load_notes_def data_get_def Rule_defaults_def truthy_def Let_def sample_rule_def)

lemma sample_unknown_x11:
  "unknown_keys sample_env [(''x11'', sample_license ''x11'')] sample_rule = [''mit'']"
  by (simp add: unknown_keys_def license_keys_def truthy_def sample_env_def sample_rule_def
        Rule_defaults_def)

lemma distinct_singleton: "distinct ks \<Longrightarrow> set ks = {k} \<Longrightarrow> ks = [k]"
proof (cases ks)
  case Nil
  then show "set ks = {k} \<Longrightarrow> ks = [k]" by simp
next
  case (Cons x xs)
  assume d: "distinct ks" and s: "set ks = {k}"
  from s Cons have x: "x = k" by auto
  from s Cons have "set xs \<subseteq> {k}" by auto
  moreover from d Cons x have "k \<notin> set xs" by simp
  ultimately have "xs = []" by (cases xs) auto
  with Cons x show "ks = [k]" by simp
qed


text \<open>
  Rules with data files. \<^verbatim>\<open>check_rules_integrity\<close> goes through all the rules before
  it raises anything. When some rule has a license key that is not in the license map, and
  every such rule has a data file, it raises one \<^verbatim>\<open>MissingLicenses\<close> error, whose
  message holds, for each such rule, the unknown keys collected for its data file (each
  key once, joined by spaces) followed by a line with that data file. When no rule has
  an unknown key, some rule that is neither negative nor a false positive has none of
  the four importance flags, and every such rule has a data file, it raises one
  \<^verbatim>\<open>MissingFlags\<close> error, a different exception, whose message holds the data file of
  each such rule. When no rule is of either kind, it returns.
\<close>

theorem check_rules_integrity_errors:
  "((\<exists>r \<in> set rules. unknown_keys E L r \<noteq> []) \<and>
    (\<forall>r \<in> set rules. unknown_keys E L r \<noteq> [] \<longrightarrow> data_file r \<noteq> None) \<longrightarrow>
      (\<exists>msg. check_rules_integrity E rules L = Inl (MissingLicenses msg) \<and>
         (\<forall>r \<in> set rules. unknown_keys E L r \<noteq> [] \<longrightarrow>
            (\<exists>ks. distinct ks \<and>
                  set ks = (\<Union>r' \<in> {r' \<in> set rules. data_file r' = data_file r}.
                              set (unknown_keys E L r')) \<and>
                  sublist (str_join '' '' ks @ ''\<newline>file://'' @ the (data_file r)
                             @ ''\<newline>'') msg)))) \<and>
   ((\<forall>r \<in> set rules. unknown_keys E L r = []) \<and>
    (\<exists>r \<in> set rules. \<not> has_importance_flags r
                      \<and> \<not> (is_negative r \<or> is_false_positive r)) \<and>
    (\<forall>r \<in> set rules. \<not> has_importance_flags r
                      \<and> \<not> (is_negative r \<or> is_false_positive r) \<longrightarrow> data_file r \<noteq> None) \<longrightarrow>
      (\<exists>msg. check_rules_integrity E rules L = Inl (MissingFlags msg) \<and>
         (\<forall>r \<in> set rules. \<not> has_importance_flags r
                      \<and> \<not> (is_negative r \<or> is_false_positive r) \<longrightarrow>
            sublist (''file://'' @ the (data_file r) @ ''\<newline>'') msg))) \<and>
   ((\<forall>r \<in> set rules. unknown_keys E L r = []) \<and>
    (\<forall>r \<in> set rules. has_importance_flags r \<or> is_negative r \<or> is_false_positive r) \<longrightarrow>
      check_rules_integrity E rules L = Inr ())"
proof (intro conjI impI)
  assume "(\<exists>r \<in> set rules. unknown_keys E L r \<noteq> []) \<and>
    (\<forall>r \<in> set rules. unknown_keys E L r \<noteq> [] \<longrightarrow> data_file r \<noteq> None)"
  then have "\<exists>r \<in> set rules. unknown_keys E L r \<noteq> []"
    and "\<forall>r \<in> set rules. unknown_keys E L r \<noteq> [] \<longrightarrow> data_file r \<noteq> None"
    by (rule conjunct1, rule conjunct2)
  then show "\<exists>msg. check_rules_integrity E rules L = Inl (MissingLicenses msg) \<and>
         (\<forall>r \<in> set rules. unknown_keys E L r \<noteq> [] \<longrightarrow>
            (\<exists>ks. distinct ks \<and>
                  set ks = (\<Union>r' \<in> {r' \<in> set rules. data_file r' = data_file r}.
                              set (unknown_keys E L r')) \<and>
                  sublist (str_join '' '' ks @ ''\<newline>file://'' @ the (data_file r)
                             @ ''\<newline>'') msg))"
    by (rule missing_licenses_raised)
next
  assume a: "(\<forall>r \<in> set rules. unknown_keys E L r = []) \<and>
    (\<exists>r \<in> set rules. \<not> has_importance_flags r
                      \<and> \<not> (is_negative r \<or> is_false_positive r)) \<and>
    (\<forall>r \<in> set rules. \<not> has_importance_flags r
                      \<and> \<not> (is_negative r \<or> is_false_positive r) \<longrightarrow> data_file r \<noteq> None)"
  show "\<exists>msg. check_rules_integrity E rules L = Inl (MissingFlags msg) \<and>
         (\<forall>r \<in> set rules. \<not> has_importance_flags r
                      \<and> \<not> (is_negative r \<or> is_false_positive r) \<longrightarrow>
            sublist (''file://'' @ the (data_file r) @ ''\<newline>'') msg)"
    by (rule missing_flags_raised[OF conjunct1[OF a] conjunct1[OF conjunct2[OF a]]
          conjunct2[OF conjunct2[OF a]]])
next
  assume a: "(\<forall>r \<in> set rules. unknown_keys E L r = []) \<and>
    (\<forall>r \<in> set rules. has_importance_flags r \<or> is_negative r \<or> is_false_positive r)"
  show "check_rules_integrity E rules L = Inr ()"
    by (rule all_flags_pass[OF conjunct1[OF a] conjunct2[OF a]])
qed

text \<open>
  The rule of \<^verbatim>\<open>/rules/coverage.yml\<close> against a license map without \<^verbatim>\<open>mit\<close>, the same
  rule without its flag against a map with \<^verbatim>\<open>mit\<close>, and the rule as it is against
  that map.
\<close>

theorem check_rules_integrity_errors_witness:
  "(\<exists>msg. check_rules_integrity sample_env [sample_rule] [(''x11'', sample_license ''x11'')]
            = Inl (MissingLicenses msg) \<and>
          sublist ''mit\<newline>file:///rules/coverage.yml\<newline>'' msg) \<and>
   (\<exists>msg. check_rules_integrity sample_env [sample_rule\<lparr>is_license_notice := False\<rparr>]
              [(''mit'', sample_license ''mit'')]
            = Inl (MissingFlags msg) \<and>
          sublist ''file:///rules/coverage.yml\<newline>'' msg) \<and>
   check_rules_integrity sample_env [sample_rule] [(''mit'', sample_license ''mit'')] = Inr ()"
proof (intro conjI)
  have df: "data_file sample_rule = Some ''/rules/coverage.yml''"
    by (simp add: sample_rule_def)
  have known: "unknown_keys sample_env [(''mit'', sample_license ''mit'')] sample_rule = []"
    "unknown_keys sample_env [(''mit'', sample_license ''mit'')]
       (sample_rule\<lparr>is_license_notice := False\<rparr>) = []"
    by (simp_all add: unknown_keys_def license_keys_def truthy_def sample_env_def
          sample_rule_def Rule_defaults_def)
  have flags: "has_importance_flags sample_rule"
    "\<not> has_importance_flags (sample_rule\<lparr>is_license_notice := False\<rparr>)"
    "\<not> is_negative (sample_rule\<lparr>is_license_notice := False\<rparr>)"
    "\<not> is_false_positive (sample_rule\<lparr>is_license_notice := False\<rparr>)"
    by (simp_all add: has_importance_flags_def sample_rule_def Rule_defaults_def)
  from check_rules_integrity_errors
         [of "[sample_rule]" sample_env "[(''x11'', sample_license ''x11'')]"]
  obtain msg ks where
    res: "check_rules_integrity sample_env [sample_rule] [(''x11'', sample_license ''x11'')]
       = Inl (MissingLicenses msg)"
    and ks: "distinct ks" "set ks = {''mit''}"
    and sub: "sublist (str_join '' '' ks @ ''\<newline>file:///rules/coverage.yml\<newline>'') msg"
    by (auto simp: sample_unknown_x11 df)
  from ks have "ks = [''mit'']" by (rule distinct_singleton)
  with sub have "sublist ''mit\<newline>file:///rules/coverage.yml\<newline>'' msg" by simp
  with res
  show "\<exists>msg. check_rules_integrity sample_env [sample_rule] [(''x11'', sample_license ''x11'')]
            = Inl (MissingLicenses msg) \<and>
          sublist ''mit\<newline>file:///rules/coverage.yml\<newline>'' msg"
    by blast
  from check_rules_integrity_errors
         [of "[sample_rule\<lparr>is_license_notice := False\<rparr>]" sample_env
             "[(''mit'', sample_license ''mit'')]"]
  show "\<exists>msg. check_rules_integrity sample_env [sample_rule\<lparr>is_license_notice := False\<rparr>]
              [(''mit'', sample_license ''mit'')]
            = Inl (MissingFlags msg) \<and>
          sublist ''file:///rules/coverage.yml\<newline>'' msg"
    by (simp add: known flags df)
  from check_rules_integrity_errors
         [of "[sample_rule]" sample_env "[(''mit'', sample_license ''mit'')]"]
  show "check_rules_integrity sample_env [sample_rule] [(''mit'', sample_license ''mit'')] = Inr ()"
    by (simp add: known flags)
qed

text \<open>
  Rules without data file. The attribute \<^verbatim>\<open>data_file\<close> of a rule is \<^verbatim>\<open>None\<close> unless
  it is given. When a rule with an unknown key has none, the message of
  \<^verbatim>\<open>MissingLicenses\<close> cannot be built: \<^verbatim>\<open>'file://' + data_file\<close> raises TypeError.
\<close>

lemma missing_data_file_raises:
  assumes r: "r \<in> set rules" and u: "unknown_keys E L r \<noteq> []" and d: "data_file r = None"
  shows "check_rules_integrity E rules L = Inl TypeError"
proof -
  define ir where "ir = fold (\<lambda>r ir. if unknown_keys E L r \<noteq> []
                     then dd_set_update (data_file r) (unknown_keys E L r) ir else ir) rules []"
  have keys: "fst ` set ir = data_file ` {r \<in> set rules. unknown_keys E L r \<noteq> []}"
    unfolding ir_def by (simp add: invalid_rules_keys)
  have dist: "distinct (map fst ir)"
    unfolding ir_def by (rule invalid_rules_distinct) simp
  have bucket: "(case map_of ir None of None \<Rightarrow> {} | Some ks \<Rightarrow> set ks)
      = (\<Union>r \<in> {r \<in> set rules. data_file r = None}. set (unknown_keys E L r))"
    unfolding ir_def by (simp add: invalid_rules_bucket)
  from r u d keys have "None \<in> fst ` set ir" by force
  then obtain ks where ks: "(None, ks) \<in> set ir" by auto
  then have nonempty: "ir \<noteq> []" by auto
  from ks dist have "map_of ir None = Some ks" by simp
  with bucket have "set ks = (\<Union>r \<in> {r \<in> set rules. data_file r = None}.
                                set (unknown_keys E L r))"
    by simp
  with r u d have "set (unknown_keys E L r) \<subseteq> set ks" by auto
  with u have "ks \<noteq> []" by auto
  with ks have "(None, ks) \<in> set (filter (\<lambda>(df, keys). keys \<noteq> []) ir)" by simp
  moreover have "missing_license_lines (None, ks) = None"
    by (simp add: missing_license_lines_def)
  ultimately have "those (map missing_license_lines (filter (\<lambda>(df, keys). keys \<noteq> []) ir))
                     = None"
    by (rule those_map_None)
  then show ?thesis
    by (subst check_rules_integrity_cases[OF ir_def refl])
       (simp only: nonempty not_False_eq_True if_True option.case)
qed


subsection \<open>Validation of licenses\<close>












text \<open>What one pass of the loop of \<^verbatim>\<open>validate\<close> does to the dictionaries.\<close>

lemma error_fields [simp]:
  "by_text (error k m v) = by_text v"
  "by_short_name (error k m v) = by_short_name v"
  "by_name (error k m v) = by_name v"
  "by_spdx_key (error k m v) = by_spdx_key v"
  "errors (error k m v) = dd_append k m (errors v)"
  by (simp_all add: error_def)

lemma warn_fields [simp]:
  "by_text (warn k m v) = by_text v"
  "by_short_name (warn k m v) = by_short_name v"
  "by_name (warn k m v) = by_name v"
  "by_spdx_key (warn k m v) = by_spdx_key v"
  "errors (warn k m v) = errors v"
  by (simp_all add: warn_def)

lemma info_fields [simp]:
  "by_text (info k m v) = by_text v"
  "by_short_name (info k m v) = by_short_name v"
  "by_name (info k m v) = by_name v"
  "by_spdx_key (info k m v) = by_spdx_key v"
  "errors (info k m v) = errors v"
  by (simp_all add: info_def)

lemma validate_urls_fields [simp]:
  "by_text (validate_urls k lic v) = by_text v"
  "by_short_name (validate_urls k lic v) = by_short_name v"
  "by_name (validate_urls k lic v) = by_name v"
  by (simp_all add: validate_urls_def Let_def)

lemma fold_spdx_fields [simp]:
  "by_text (fold (\<lambda>oslk v. v\<lparr>by_spdx_key := dd_append oslk k (by_spdx_key v)\<rparr>) ks v)
     = by_text v"
  "by_short_name (fold (\<lambda>oslk v. v\<lparr>by_spdx_key := dd_append oslk k (by_spdx_key v)\<rparr>) ks v)
     = by_short_name v"
  "by_name (fold (\<lambda>oslk v. v\<lparr>by_spdx_key := dd_append oslk k (by_spdx_key v)\<rparr>) ks v)
     = by_name v"
  by (induction ks arbitrary: v) simp_all

lemma validate_license_raises:
  "License_text E lic = Inl e \<Longrightarrow> validate_license E nd v (k, lic) = Inl e"
  by (simp add: validate_license_def Let_def)



text \<open>The messages of a dictionary: those there stay there.\<close>

lemma fold_error_fields [simp]:
  "by_text (fold (\<lambda>x. error k (F x)) xs v) = by_text v"
  "by_short_name (fold (\<lambda>x. error k (F x)) xs v) = by_short_name v"
  "by_name (fold (\<lambda>x. error k (F x)) xs v) = by_name v"
  by (induction xs arbitrary: v) simp_all



lemma spdx_dedupe_fields [simp]:
  "by_text (spdx_dedupe v) = by_text v"
  "by_short_name (spdx_dedupe v) = by_short_name v"
  "by_name (spdx_dedupe v) = by_name v"
  unfolding spdx_dedupe_def Let_def case_prod_beta by (simp_all only: fold_error_fields)

lemma text_dedupe_fields [simp]:
  "by_short_name (text_dedupe v) = by_short_name v"
  "by_name (text_dedupe v) = by_name v"
  unfolding text_dedupe_def Let_def case_prod_beta by (simp_all only: fold_error_fields)










text \<open>
  Two licenses without short name share the bucket of \<^verbatim>\<open>None\<close> in
  \<^verbatim>\<open>by_short_name\<close>, and \<^verbatim>\<open>'Duplicate short name:' + short_name\<close> raises TypeError.
\<close>

lemma validate_raises_TypeError:
  "validate sample_env
     [(''mit'', (sample_license ''mit'')\<lparr>short_name := None\<rparr>),
      (''empty'', (sample_license ''empty'')\<lparr>short_name := None\<rparr>)] False False
   = Inl TypeError"
  by (simp add: validate_def validate_license_def Let_def License_text_def
        read_text_def sample_license_def License_defaults_def sample_env_def sample_files_def
        truthy_def CATEGORIES_def FOSS_CATEGORIES_def OTHER_CATEGORIES_def info_def error_def
        spdx_dedupe_def text_dedupe_def name_dedupe_def nonempty_items_def)




end
